theory Spec2Isabelle
  imports
    Complex_Main
    "HOL-Library.Char_ord"
    "HOL-Library.List_Lexorder"
    "HOL-Library.Product_Lexorder"
    "HOL-Library.Multiset"
begin

section \<open>BlackRoad Energy Monitor: the data model\<close>

text \<open>
  The embedding follows \<^verbatim>\<open>src/energy_monitor.py\<close>. Arguments have the types their
  annotations give. A Python float is a value of a
  type parameter \<open>'f\<close>, and everything the code computes on floats goes through a record
  of operations (\<open>float_ops\<close> below), so that what is proved of the code holds for the
  platform's binary doubles with their rounding, infinities and NaN. The instance
  \<open>exact\<close> reads the operations as arithmetic on \<^typ>\<open>real\<close>; it is used to run the
  code on concrete numbers. Python's unbounded integers are \<^typ>\<open>nat\<close> where they are
  row ids and counts and \<^typ>\<open>int\<close> where they may be negative;
  \<^verbatim>\<open>Optional[...]\<close> is \<^typ>\<open>'a option\<close>. The SQLite database, as the open
  connection sees it, is a record of its three tables, each a list of rows in insertion
  (rowid) order, together with the two AUTOINCREMENT counters. SQLite stores a NaN as
  \<^verbatim>\<open>NULL\<close>: a \<^verbatim>\<open>REAL\<close> field of a row holds the float that was bound, and
  holds \<^verbatim>\<open>NULL\<close> when that float is a NaN. The wall clock
  (\<^verbatim>\<open>datetime.utcnow()\<close>) is a parameter of every operation that reads it. Record
  fields carry a prefix because several classes of the source share field names.
\<close>

record 'f EnergyReading =
  rd_device_id :: string
  rd_device_name :: string
  rd_watts :: 'f
  rd_timestamp :: "string option"
  rd_location :: string
  rd_id :: "nat option"

text \<open>
  The text of an anomaly message is an f-string over three floats (watts, baseline,
  deviation); the model keeps the three operands and leaves the rendering of digits out.
\<close>

datatype 'f message = Anomaly_message 'f 'f 'f

record 'f EnergyAlert =
  al_device_id :: string
  al_device_name :: string
  al_alert_type :: string
  al_watts :: 'f
  al_baseline_watts :: 'f
  al_deviation_pct :: 'f
  al_message :: "'f message"
  al_created_at :: string

record 'f DeviceStats =
  st_device_id :: string
  st_device_name :: string
  st_location :: string
  st_avg_watts :: 'f
  st_max_watts :: 'f
  st_min_watts :: 'f
  st_daily_kwh :: 'f
  st_daily_cost_usd :: 'f
  st_reading_count :: nat
  st_last_reading_at :: "string option"

text \<open>Rows of the tables \<^verbatim>\<open>devices\<close>, \<^verbatim>\<open>readings\<close> and \<^verbatim>\<open>alerts\<close>.\<close>

record 'f device_row =
  dv_device_id :: string
  dv_device_name :: string
  dv_location :: string
  dv_threshold_watts :: 'f
  dv_created_at :: string

record 'f reading_row =
  row_id :: nat
  row_device_id :: string
  row_device_name :: string
  row_watts :: 'f
  row_location :: string
  row_timestamp :: string

record 'f alert_row = "'f EnergyAlert" +
  al_id :: nat

record 'f db =
  devices :: "'f device_row list"
  readings :: "'f reading_row list"
  alerts :: "'f alert_row list"
  readings_seq :: nat
  alerts_seq :: nat

text \<open>
  What the functions print; the colour codes are left out. Failures of the environment
  (a console that cannot encode the output, input and output errors, a locked database)
  are not modelled.
\<close>

datatype 'f console =
    Print_added string string
  | Print_exists string
  | Print_anomaly "'f message"
  | Print_threshold 'f 'f

text \<open>The exceptions that can leave the methods.\<close>

datatype error =
    StatisticsError
  | ZeroDivisionError
  | TypeError
  | IntegrityError
  | OverflowError
  | AttributeError

text \<open>\<^verbatim>\<open>init_db\<close> on a fresh file: three empty tables.\<close>

definition init_db :: "'f db" where
  "init_db = \<lparr>devices = [], readings = [], alerts = [], readings_seq = 0, alerts_seq = 0\<rparr>"

section \<open>Floating-point arithmetic\<close>

text \<open>
  The operations on floats that the code uses, as Python and SQLite provide them:
  \<^item> \<open>is_nan x\<close>: \<open>x\<close> is a NaN, which SQLite binds as \<^verbatim>\<open>NULL\<close>;
  \<^item> \<open>f_lit c\<close>: the float of the numeric literal \<open>c\<close> (\<^verbatim>\<open>0\<close>, \<^verbatim>\<open>2\<close>,
    \<^verbatim>\<open>100\<close>, \<^verbatim>\<open>24.0\<close>, \<^verbatim>\<open>1000.0\<close>, \<^verbatim>\<open>0.12\<close>);
  \<^item> \<open>f_sub\<close>, \<open>f_mul\<close>, \<open>f_div\<close> (on a non-zero divisor), \<open>f_abs\<close>: \<^verbatim>\<open>-\<close>,
    \<^verbatim>\<open>*\<close>, \<^verbatim>\<open>/\<close>, \<^verbatim>\<open>abs\<close>;
  \<^item> \<open>f_gt x y\<close>: the comparison \<^verbatim>\<open>x > y\<close>;
  \<^item> \<open>f_round x n\<close>: \<^verbatim>\<open>round(x, n)\<close>;
  \<^item> \<open>f_sum\<close>: the builtin \<^verbatim>\<open>sum\<close>;
  \<^item> \<open>f_mean\<close>, \<open>f_stdev\<close>: \<^verbatim>\<open>statistics.mean\<close> and \<^verbatim>\<open>statistics.stdev\<close>,
    which may raise;
  \<^item> \<open>f_avg\<close>, \<open>f_max\<close>, \<open>f_min\<close>: SQLite's aggregates \<^verbatim>\<open>AVG\<close>, \<^verbatim>\<open>MAX\<close>,
    \<^verbatim>\<open>MIN\<close> over a column of floats, \<open>None\<close> for \<^verbatim>\<open>NULL\<close>.
  Nothing is assumed of them.
\<close>

record 'f float_ops =
  is_nan :: "'f \<Rightarrow> bool"
  f_lit :: "real \<Rightarrow> 'f"
  f_sub :: "'f \<Rightarrow> 'f \<Rightarrow> 'f"
  f_mul :: "'f \<Rightarrow> 'f \<Rightarrow> 'f"
  f_div :: "'f \<Rightarrow> 'f \<Rightarrow> 'f"
  f_abs :: "'f \<Rightarrow> 'f"
  f_gt :: "'f \<Rightarrow> 'f \<Rightarrow> bool"
  f_round :: "'f \<Rightarrow> nat \<Rightarrow> 'f"
  f_sum :: "'f list \<Rightarrow> 'f"
  f_mean :: "'f list \<Rightarrow> error + 'f"
  f_stdev :: "'f list \<Rightarrow> error + 'f"
  f_avg :: "'f list \<Rightarrow> 'f option"
  f_max :: "'f list \<Rightarrow> 'f option"
  f_min :: "'f list \<Rightarrow> 'f option"

text \<open>\<^verbatim>\<open>COST_PER_KWH = 0.12\<close>\<close>

definition cost_per_kwh :: "'f float_ops \<Rightarrow> 'f" where
  "cost_per_kwh ops = f_lit ops (12 / 100)"

text \<open>
  True division \<^verbatim>\<open>a / b\<close> raises on a zero divisor, \<open>0.0\<close> or \<open>-0.0\<close>: the
  floats that are not a NaN and neither greater nor less than \<^verbatim>\<open>0\<close>.
\<close>

definition is_zero :: "'f float_ops \<Rightarrow> 'f \<Rightarrow> bool" where
  "is_zero ops x =
     (\<not> is_nan ops x \<and> \<not> f_gt ops x (f_lit ops 0) \<and> \<not> f_gt ops (f_lit ops 0) x)"

definition true_div :: "'f float_ops \<Rightarrow> 'f \<Rightarrow> 'f \<Rightarrow> error + 'f" where
  "true_div ops a b = (if is_zero ops b then Inl ZeroDivisionError else Inr (f_div ops a b))"

subsection \<open>Exact arithmetic\<close>

text \<open>
  The operations read on the reals: no NaN, no infinity, no rounding of the
  arithmetic. \<open>mean\<close> and \<open>stdev\<close> are \<^verbatim>\<open>statistics.mean\<close> and
  \<^verbatim>\<open>statistics.stdev\<close> (sample standard deviation, denominator \<open>n - 1\<close>); both raise
  \<^verbatim>\<open>StatisticsError\<close> on too few data points. A value computed in this arithmetic is
  the code's value only where the code's floating-point operations lose nothing, or
  lose less than the margin of the comparison or of the rounding that follows; the
  concrete inputs below are of that kind. What holds of the code on every input is
  stated for an arbitrary \<open>ops\<close>.
\<close>

definition COST_PER_KWH :: real where
  "COST_PER_KWH = 12 / 100"

definition mean :: "real list \<Rightarrow> error + real" where
  "mean xs = (if xs = [] then Inl StatisticsError
              else Inr (sum_list xs / real (length xs)))"

definition stdev :: "real list \<Rightarrow> error + real" where
  "stdev xs =
     (if length xs < 2 then Inl StatisticsError
      else let m = sum_list xs / real (length xs)
           in Inr (sqrt (sum_list (map (\<lambda>x. (x - m)\<^sup>2) xs) / real (length xs - 1))))"

text \<open>
  \<^verbatim>\<open>round(x, n)\<close> on a real: the nearest multiple of \<open>10\<^sup>-\<^sup>n\<close>, ties to the even
  multiple.
\<close>

definition round_half_even :: "real \<Rightarrow> int" where
  "round_half_even y =
     (let f = \<lfloor>y\<rfloor>
      in if y - of_int f < 1 / 2 then f
         else if 1 / 2 < y - of_int f then f + 1
         else if even f then f else f + 1)"

definition py_round :: "real \<Rightarrow> nat \<Rightarrow> real" where
  "py_round x n = of_int (round_half_even (x * 10 ^ n)) / 10 ^ n"

text \<open>The aggregates on the reals: \<^verbatim>\<open>NULL\<close> on no rows.\<close>

definition sql_avg :: "real list \<Rightarrow> real option" where
  "sql_avg xs = (if xs = [] then None else Some (sum_list xs / real (length xs)))"

definition sql_max :: "('a::linorder) list \<Rightarrow> 'a option" where
  "sql_max xs = (case xs of [] \<Rightarrow> None | x # ys \<Rightarrow> Some (fold max ys x))"

definition sql_min :: "('a::linorder) list \<Rightarrow> 'a option" where
  "sql_min xs = (case xs of [] \<Rightarrow> None | x # ys \<Rightarrow> Some (fold min ys x))"

definition exact :: "real float_ops" where
  "exact =
     \<lparr>is_nan = (\<lambda>x. False), f_lit = (\<lambda>c. c),
      f_sub = (\<lambda>x y. x - y), f_mul = (\<lambda>x y. x * y), f_div = (\<lambda>x y. x / y),
      f_abs = (\<lambda>x. \<bar>x\<bar>), f_gt = (\<lambda>x y. y < x), f_round = py_round, f_sum = sum_list,
      f_mean = mean, f_stdev = stdev, f_avg = sql_avg, f_max = sql_max, f_min = sql_min\<rparr>"

section \<open>SQL the source relies on\<close>

text \<open>
  SQLite's \<^verbatim>\<open>LIKE\<close>: \<^verbatim>\<open>%\<close> matches any run of characters, \<^verbatim>\<open>_\<close> any single
  character, and every other character matches itself up to ASCII letter case.
\<close>

definition ascii_lower :: "char \<Rightarrow> char" where
  "ascii_lower c =
     (if CHR ''A'' \<le> c \<and> c \<le> CHR ''Z'' then char_of (of_char c + (32::nat)) else c)"

fun like_match :: "string \<Rightarrow> string \<Rightarrow> bool" where
  "like_match [] s = (s = [])"
| "like_match (p # ps) [] = (p = CHR ''%'' \<and> like_match ps [])"
| "like_match (p # ps) (c # cs) =
     (if p = CHR ''%'' then like_match ps (c # cs) \<or> like_match (p # ps) cs
      else (p = CHR ''_'' \<or> ascii_lower p = ascii_lower c) \<and> like_match ps cs)"

text \<open>
  \<^verbatim>\<open>ORDER BY key DESC\<close>. SQL leaves the order among rows with equal keys open; the
  model keeps them in rowid order.
\<close>

definition order_desc :: "('a \<Rightarrow> 'k::linorder) \<Rightarrow> 'a list \<Rightarrow> 'a list" where
  "order_desc key rows = rev (sort_key key (rev rows))"

text \<open>\<^verbatim>\<open>LIMIT n\<close>: a negative limit means no limit.\<close>

definition sql_limit :: "int \<Rightarrow> 'a list \<Rightarrow> 'a list" where
  "sql_limit n rows = (if n < 0 then rows else take (nat n) rows)"

section \<open>The monitor\<close>

subsection \<open>\<^verbatim>\<open>add_device\<close>\<close>

definition add_device ::
  "'f db \<Rightarrow> string \<Rightarrow> string \<Rightarrow> string \<Rightarrow> string \<Rightarrow> 'f \<Rightarrow> 'f db \<times> 'f console list" where
  "add_device d now device_id device_name location threshold_watts =
     (if device_id \<in> set (map dv_device_id (devices d))
      then (d, [Print_exists device_id])
      else (d\<lparr>devices := devices d @
                [\<lparr>dv_device_id = device_id, dv_device_name = device_name,
                  dv_location = location, dv_threshold_watts = threshold_watts,
                  dv_created_at = now\<rparr>]\<rparr>,
            [Print_added device_name device_id]))"

subsection \<open>\<^verbatim>\<open>add_reading\<close>\<close>

text \<open>
  The row an \<^verbatim>\<open>INSERT INTO readings\<close> appends, with the \<^verbatim>\<open>lastrowid\<close>; and the
  statement itself, which the constraint \<^verbatim>\<open>watts REAL NOT NULL\<close> refuses with
  \<^verbatim>\<open>IntegrityError\<close> when the watts are a NaN.
\<close>

definition append_reading :: "'f db \<Rightarrow> 'f EnergyReading \<Rightarrow> string \<Rightarrow> 'f db \<times> nat" where
  "append_reading d reading ts =
     (let rowid = Suc (readings_seq d)
      in (d\<lparr>readings := readings d @
               [\<lparr>row_id = rowid, row_device_id = rd_device_id reading,
                 row_device_name = rd_device_name reading, row_watts = rd_watts reading,
                 row_location = rd_location reading, row_timestamp = ts\<rparr>],
             readings_seq := rowid\<rparr>, rowid))"

definition insert_reading ::
  "'f float_ops \<Rightarrow> 'f db \<Rightarrow> 'f EnergyReading \<Rightarrow> string \<Rightarrow> error + ('f db \<times> nat)" where
  "insert_reading ops d reading ts =
     (if is_nan ops (rd_watts reading) then Inl IntegrityError
      else Inr (append_reading d reading ts))"

text \<open>
  \<^verbatim>\<open>SELECT watts FROM readings WHERE device_id = ? ORDER BY timestamp DESC LIMIT 100\<close>
\<close>

definition recent_watts :: "'f db \<Rightarrow> string \<Rightarrow> 'f list" where
  "recent_watts d device_id =
     map row_watts
       (take 100 (order_desc row_timestamp
          (filter (\<lambda>r. row_device_id r = device_id) (readings d))))"

text \<open>
  The deviation percentage of an anomaly alert:
  \<^verbatim>\<open>((reading.watts - baseline) / baseline) * 100 if baseline > 0 else 0\<close>.
\<close>

definition deviation_pct_on :: "'f float_ops \<Rightarrow> 'f \<Rightarrow> 'f \<Rightarrow> error + 'f" where
  "deviation_pct_on ops watts baseline =
     (if f_gt ops baseline (f_lit ops 0)
      then (case true_div ops (f_sub ops watts baseline) baseline of
              Inl e \<Rightarrow> Inl e
            | Inr q \<Rightarrow> Inr (f_mul ops q (f_lit ops 100)))
      else Inr (f_lit ops 0))"

text \<open>The \<^verbatim>\<open>INSERT INTO alerts\<close>.\<close>

definition insert_alert :: "'f db \<Rightarrow> 'f EnergyAlert \<Rightarrow> 'f db" where
  "insert_alert d a =
     d\<lparr>alerts := alerts d @ [EnergyAlert.extend a \<lparr>al_id = Suc (alerts_seq d)\<rparr>],
       alerts_seq := Suc (alerts_seq d)\<rparr>"

text \<open>
  The block under \<^verbatim>\<open># Check for anomaly\<close>, from \<^verbatim>\<open>if len(history) >= 10\<close> on:
  \<open>now\<close> is the clock read for \<^verbatim>\<open>created_at\<close>.
\<close>

definition anomaly_check_on ::
  "'f float_ops \<Rightarrow> 'f db \<Rightarrow> string \<Rightarrow> 'f EnergyReading \<Rightarrow> 'f list
     \<Rightarrow> error + ('f db \<times> 'f console list)" where
  "anomaly_check_on ops d now reading history =
     (if length history \<ge> 10 then
        (case f_mean ops history of
           Inl e \<Rightarrow> Inl e
         | Inr baseline \<Rightarrow>
            (case (if length history > 1 then f_stdev ops history else Inr (f_lit ops 0)) of
               Inl e \<Rightarrow> Inl e
             | Inr std \<Rightarrow>
                (if f_gt ops std (f_lit ops 0) \<and>
                    f_gt ops (f_abs ops (f_sub ops (rd_watts reading) baseline))
                      (f_mul ops (f_lit ops 2) std) then
                   (case deviation_pct_on ops (rd_watts reading) baseline of
                      Inl e \<Rightarrow> Inl e
                    | Inr deviation \<Rightarrow>
                       (let msg = Anomaly_message (rd_watts reading) baseline deviation
                        in Inr (insert_alert d
                                  \<lparr>al_device_id = rd_device_id reading,
                                    al_device_name = rd_device_name reading,
                                    al_alert_type = ''anomaly'',
                                    al_watts = rd_watts reading,
                                    al_baseline_watts = f_round ops baseline 2,
                                    al_deviation_pct = f_round ops deviation 2,
                                    al_message = msg,
                                    al_created_at = now\<rparr>,
                                [Print_anomaly msg])))
                 else Inr (d, []))))
      else Inr (d, []))"

text \<open>
  The block under \<^verbatim>\<open># Threshold check\<close>: \<^verbatim>\<open>devices.device_id\<close> is the primary
  key, so \<^verbatim>\<open>fetchone\<close> is the one matching row, if any. A stored threshold that is
  \<^verbatim>\<open>NULL\<close> comes back as \<^verbatim>\<open>None\<close>, and \<^verbatim>\<open>None > 0\<close> raises
  \<^verbatim>\<open>TypeError\<close>.
\<close>

definition threshold_check_on ::
  "'f float_ops \<Rightarrow> 'f db \<Rightarrow> 'f EnergyReading \<Rightarrow> error + 'f console list" where
  "threshold_check_on ops d reading =
     (case find (\<lambda>v. dv_device_id v = rd_device_id reading) (devices d) of
        None \<Rightarrow> Inr []
      | Some dev \<Rightarrow>
          (if is_nan ops (dv_threshold_watts dev) then Inl TypeError
           else if f_gt ops (dv_threshold_watts dev) (f_lit ops 0) \<and>
                   f_gt ops (rd_watts reading) (dv_threshold_watts dev)
           then Inr [Print_threshold (rd_watts reading) (dv_threshold_watts dev)]
           else Inr []))"

text \<open>
  Python's \<^verbatim>\<open>or\<close> on an optional string, as in
  \<^verbatim>\<open>reading.timestamp or datetime.utcnow().isoformat()\<close> and
  \<^verbatim>\<open>date_str or datetime.utcnow().strftime("%Y-%m-%d")\<close>: it takes the right
  operand when the left one is \<^verbatim>\<open>None\<close> or the empty string.
\<close>

definition py_or :: "string option \<Rightarrow> string \<Rightarrow> string" where
  "py_or t now =
     (case t of
        None \<Rightarrow> now
      | Some s \<Rightarrow> if s = [] then now else s)"

text \<open>
  \<^verbatim>\<open>add_reading\<close>: \<open>now\<close> is the clock read for a missing timestamp, \<open>now'\<close> the
  one for the alert's \<^verbatim>\<open>created_at\<close>. An exception leaves the method before the
  \<^verbatim>\<open>commit\<close>; the result is then the exception alone, and what the open connection
  holds after it is not modelled.
\<close>

definition add_reading_on ::
  "'f float_ops \<Rightarrow> 'f db \<Rightarrow> string \<Rightarrow> string \<Rightarrow> 'f EnergyReading
     \<Rightarrow> error + ('f db \<times> 'f EnergyReading \<times> 'f console list)" where
  "add_reading_on ops d now now' reading =
     (let ts = py_or (rd_timestamp reading) now;
          reading1 = reading\<lparr>rd_timestamp := Some ts\<rparr>
      in case insert_reading ops d reading1 ts of
           Inl e \<Rightarrow> Inl e
         | Inr (d1, rowid) \<Rightarrow>
            (let reading2 = reading1\<lparr>rd_id := Some rowid\<rparr>;
                 history = recent_watts d1 (rd_device_id reading2)
             in case anomaly_check_on ops d1 now' reading2 history of
                  Inl e \<Rightarrow> Inl e
                | Inr (d2, out) \<Rightarrow>
                   (case threshold_check_on ops d2 reading2 of
                      Inl e \<Rightarrow> Inl e
                    | Inr out' \<Rightarrow> Inr (d2, reading2, out @ out'))))"

subsection \<open>\<^verbatim>\<open>get_daily_usage\<close>\<close>

text \<open>A row of the grouped query: every aggregate may be \<^verbatim>\<open>NULL\<close>.\<close>

record 'f usage_row =
  u_device_id :: string
  u_device_name :: string
  u_location :: string
  u_avg_watts :: "'f option"
  u_max_watts :: "'f option"
  u_min_watts :: "'f option"
  u_cnt :: nat
  u_last_ts :: "string option"

definition group_key :: "'f reading_row \<Rightarrow> string \<times> string \<times> string" where
  "group_key r = (row_device_id r, row_device_name r, row_location r)"

text \<open>
  The rows the \<^verbatim>\<open>WHERE\<close> clause selects: \<^verbatim>\<open>timestamp LIKE 'date%'\<close> and, when a
  device id is given (and not empty), \<^verbatim>\<open>device_id = ?\<close>.
\<close>

definition selected_readings :: "'f db \<Rightarrow> string \<Rightarrow> string option \<Rightarrow> 'f reading_row list" where
  "selected_readings d date device_id =
     (let rows = filter (\<lambda>r. like_match (date @ ''%'') (row_timestamp r)) (readings d)
      in case device_id of
           None \<Rightarrow> rows
         | Some i \<Rightarrow> if i = [] then rows else filter (\<lambda>r. row_device_id r = i) rows)"

text \<open>
  \<^verbatim>\<open>GROUP BY device_id, device_name, location\<close>: one row per key that occurs. SQL
  leaves the order of the groups open; SQLite sorts by the key and so does the model.
\<close>

definition usage_of_group ::
  "'f float_ops \<Rightarrow> 'f reading_row list \<Rightarrow> string \<times> string \<times> string \<Rightarrow> 'f usage_row" where
  "usage_of_group ops rows k =
     (let g = filter (\<lambda>r. group_key r = k) rows
      in \<lparr>u_device_id = fst k, u_device_name = fst (snd k), u_location = snd (snd k),
          u_avg_watts = f_avg ops (map row_watts g),
          u_max_watts = f_max ops (map row_watts g),
          u_min_watts = f_min ops (map row_watts g),
          u_cnt = length g,
          u_last_ts = sql_max (map row_timestamp g)\<rparr>)"

definition daily_usage_query ::
  "'f float_ops \<Rightarrow> 'f db \<Rightarrow> string \<Rightarrow> string option \<Rightarrow> 'f usage_row list" where
  "daily_usage_query ops d date device_id =
     (let rows = selected_readings d date device_id
      in map (usage_of_group ops rows) (sort (remdups (map group_key rows))))"

text \<open>
  The body of the loop over the fetched rows. Arithmetic on \<^verbatim>\<open>None\<close> and
  \<^verbatim>\<open>round(None, 2)\<close> raise \<^verbatim>\<open>TypeError\<close>; the divisor \<^verbatim>\<open>1000.0\<close> is not
  zero.
\<close>

definition device_stats :: "'f float_ops \<Rightarrow> 'f usage_row \<Rightarrow> error + 'f DeviceStats" where
  "device_stats ops r =
     (case u_avg_watts r of
        None \<Rightarrow> Inl TypeError
      | Some avg \<Rightarrow>
         (let hours = f_lit ops 24;
              kwh = f_div ops (f_mul ops avg hours) (f_lit ops 1000);
              cost = f_mul ops kwh (cost_per_kwh ops)
          in case u_max_watts r of
               None \<Rightarrow> Inl TypeError
             | Some mx \<Rightarrow>
                (case u_min_watts r of
                   None \<Rightarrow> Inl TypeError
                 | Some mn \<Rightarrow>
                    Inr \<lparr>st_device_id = u_device_id r, st_device_name = u_device_name r,
                         st_location = u_location r, st_avg_watts = f_round ops avg 2,
                         st_max_watts = f_round ops mx 2, st_min_watts = f_round ops mn 2,
                         st_daily_kwh = f_round ops kwh 4,
                         st_daily_cost_usd = f_round ops cost 4,
                         st_reading_count = u_cnt r, st_last_reading_at = u_last_ts r\<rparr>)))"

fun device_stats_loop :: "'f float_ops \<Rightarrow> 'f usage_row list \<Rightarrow> error + 'f DeviceStats list" where
  "device_stats_loop ops [] = Inr []"
| "device_stats_loop ops (r # rs) =
     (case device_stats ops r of
        Inl e \<Rightarrow> Inl e
      | Inr s \<Rightarrow>
         (case device_stats_loop ops rs of
            Inl e \<Rightarrow> Inl e
          | Inr results \<Rightarrow> Inr (s # results)))"

text \<open>\<open>today\<close> is the clock's date, read when \<^verbatim>\<open>date_str\<close> is missing or empty.\<close>

definition get_daily_usage_on ::
  "'f float_ops \<Rightarrow> 'f db \<Rightarrow> string \<Rightarrow> string option \<Rightarrow> string option
     \<Rightarrow> error + 'f DeviceStats list" where
  "get_daily_usage_on ops d today device_id date_str =
     (let date = py_or date_str today
      in device_stats_loop ops (daily_usage_query ops d date device_id))"

subsection \<open>\<^verbatim>\<open>get_anomalies\<close> and \<^verbatim>\<open>export_report\<close>\<close>

text \<open>
  The limit is bound as an SQLite integer: a Python integer outside 64 bits raises
  \<^verbatim>\<open>OverflowError\<close>.
\<close>

definition get_anomalies :: "'f db \<Rightarrow> int \<Rightarrow> error + 'f alert_row list" where
  "get_anomalies d limit =
     (if limit < - (2 ^ 63) \<or> 2 ^ 63 \<le> limit then Inl OverflowError
      else Inr (sql_limit limit (order_desc al_created_at (alerts d))))"




subsection \<open>Intermediate values\<close>

text \<open>
  Names for two intermediate values of \<open>add_reading\<close>: the database after an
  \<^verbatim>\<open>INSERT\<close> that succeeds, and the history the \<^verbatim>\<open>SELECT\<close> then returns.
\<close>

definition inserted :: "'f db \<Rightarrow> string \<Rightarrow> 'f EnergyReading \<Rightarrow> 'f db" where
  "inserted d now reading =
     fst (append_reading d
            (reading\<lparr>rd_timestamp := Some (py_or (rd_timestamp reading) now)\<rparr>)
            (py_or (rd_timestamp reading) now))"

definition history_read :: "'f db \<Rightarrow> string \<Rightarrow> 'f EnergyReading \<Rightarrow> 'f list" where
  "history_read d now reading = recent_watts (inserted d now reading) (rd_device_id reading)"

text \<open>
  The stored threshold of a reading's device is not \<^verbatim>\<open>NULL\<close> (or the device is
  not registered): the condition on which the threshold block does not raise.
\<close>

definition threshold_not_null :: "'f float_ops \<Rightarrow> 'f db \<Rightarrow> string \<Rightarrow> bool" where
  "threshold_not_null ops d device_id =
     (case find (\<lambda>v. dv_device_id v = device_id) (devices d) of
        None \<Rightarrow> True
      | Some dev \<Rightarrow> \<not> is_nan ops (dv_threshold_watts dev))"

text \<open>The test of the anomaly block: \<^verbatim>\<open>abs(reading.watts - baseline) > 2 * std\<close>.\<close>

definition beyond_two_std :: "'f float_ops \<Rightarrow> 'f \<Rightarrow> 'f \<Rightarrow> 'f \<Rightarrow> bool" where
  "beyond_two_std ops watts baseline std =
     f_gt ops (f_abs ops (f_sub ops watts baseline)) (f_mul ops (f_lit ops 2) std)"

text \<open>
  The readings a row of \<^verbatim>\<open>get_daily_usage\<close> aggregates: the selected readings
  with the row's device id, device name and location.
\<close>

definition stats_group ::
  "'f db \<Rightarrow> string \<Rightarrow> string option \<Rightarrow> 'f DeviceStats \<Rightarrow> 'f reading_row list" where
  "stats_group d date device_id s =
     filter (\<lambda>x. group_key x = (st_device_id s, st_device_name s, st_location s))
       (selected_readings d date device_id)"

text \<open>The energy and the cost of a group's average, before they are rounded.\<close>

definition kwh_of :: "'f float_ops \<Rightarrow> 'f \<Rightarrow> 'f" where
  "kwh_of ops avg = f_div ops (f_mul ops avg (f_lit ops 24)) (f_lit ops 1000)"

definition cost_of :: "'f float_ops \<Rightarrow> 'f \<Rightarrow> 'f" where
  "cost_of ops avg = f_mul ops (kwh_of ops avg) (cost_per_kwh ops)"

section \<open>The monitor in exact arithmetic\<close>

text \<open>
  The same functions with the operations read on the reals. The statistics of the
  anomaly block are then the textbook ones, no float is a NaN and no aggregate of a
  non-empty group is \<^verbatim>\<open>NULL\<close>, so that nothing raises. \<open>threshold_check\<close> is the
  output of the threshold block, which returns in this arithmetic.
\<close>

definition deviation_pct :: "real \<Rightarrow> real \<Rightarrow> error + real" where
  "deviation_pct = deviation_pct_on exact"

definition anomaly_check ::
  "real db \<Rightarrow> string \<Rightarrow> real EnergyReading \<Rightarrow> real list \<Rightarrow> error + (real db \<times> real console list)"
  where
  "anomaly_check = anomaly_check_on exact"

definition threshold_check :: "real db \<Rightarrow> real EnergyReading \<Rightarrow> real console list" where
  "threshold_check d reading =
     (case threshold_check_on exact d reading of Inl e \<Rightarrow> [] | Inr out \<Rightarrow> out)"

definition add_reading ::
  "real db \<Rightarrow> string \<Rightarrow> string \<Rightarrow> real EnergyReading
     \<Rightarrow> error + (real db \<times> real EnergyReading \<times> real console list)" where
  "add_reading = add_reading_on exact"

definition get_daily_usage ::
  "real db \<Rightarrow> string \<Rightarrow> string option \<Rightarrow> string option \<Rightarrow> error + real DeviceStats list" where
  "get_daily_usage = get_daily_usage_on exact"


section \<open>The operation as the specification words it\<close>

text \<open>
  The same operation as the specification words it (\<open>read history \<rightarrow> decide \<rightarrow>
  commit\<close>): the history is read before the reading is inserted. Everything else is as
  in \<open>add_reading\<close>, in exact arithmetic.
\<close>

definition spec_record ::
  "real db \<Rightarrow> string \<Rightarrow> string \<Rightarrow> real EnergyReading \<Rightarrow> error + (real db \<times> real EnergyReading \<times> real console list)"
  where
  "spec_record d now now' reading =
     (let ts = py_or (rd_timestamp reading) now;
          reading1 = reading\<lparr>rd_timestamp := Some ts\<rparr>;
          history = recent_watts d (rd_device_id reading1);
          (d1, rowid) = append_reading d reading1 ts;
          reading2 = reading1\<lparr>rd_id := Some rowid\<rparr>
      in case anomaly_check d1 now' reading2 history of
           Inl e \<Rightarrow> Inl e
         | Inr (d2, out) \<Rightarrow> Inr (d2, reading2, out @ threshold_check d2 reading2))"

section \<open>Scenarios and concrete inputs\<close>

text \<open>A run of \<^verbatim>\<open>add_reading\<close> calls, each with its two clock values.\<close>

fun add_readings :: "real db \<Rightarrow> (string \<times> string \<times> real EnergyReading) list \<Rightarrow> error + real db" where
  "add_readings d [] = Inr d"
| "add_readings d ((now, now', reading) # rest) =
     (case add_reading d now now' reading of
        Inl e \<Rightarrow> Inl e
      | Inr (d', _, _) \<Rightarrow> add_readings d' rest)"

text \<open>
  The constructor call \<^verbatim>\<open>EnergyReading(device_id=..., device_name=..., watts=...)\<close>
  with the dataclass defaults, and the two scenarios of the test suite and the
  specification: a run of equal readings of one device on a fresh database, and such a
  run followed by one different reading. \<open>clock i\<close> are the two clock values of call
  \<open>i\<close>.
\<close>

definition EnergyReading_new :: "string \<Rightarrow> string \<Rightarrow> real \<Rightarrow> real EnergyReading" where
  "EnergyReading_new device_id device_name watts =
     \<lparr>rd_device_id = device_id, rd_device_name = device_name, rd_watts = watts,
      rd_timestamp = None, rd_location = ''default'', rd_id = None\<rparr>"

definition steady :: "(nat \<Rightarrow> string \<times> string) \<Rightarrow> real \<Rightarrow> nat \<Rightarrow> (string \<times> string \<times> real EnergyReading) list"
  where
  "steady clock w n =
     map (\<lambda>i. (fst (clock i), snd (clock i), EnergyReading_new ''a1'' ''PC'' w)) [0..<n]"

definition steady_then ::
  "(nat \<Rightarrow> string \<times> string) \<Rightarrow> real \<Rightarrow> nat \<Rightarrow> real
     \<Rightarrow> error + (real db \<times> real EnergyReading \<times> real console list)" where
  "steady_then clock w n x =
     (case add_readings init_db (steady clock w n) of
        Inl e \<Rightarrow> Inl e
      | Inr d \<Rightarrow> add_reading d (fst (clock n)) (snd (clock n)) (EnergyReading_new ''a1'' ''PC'' x))"

text \<open>The database a steady run of \<open>n\<close> readings leaves behind, written out.\<close>

definition steady_db :: "(nat \<Rightarrow> string \<times> string) \<Rightarrow> real \<Rightarrow> nat \<Rightarrow> real db" where
  "steady_db clock w n =
     \<lparr>devices = [],
      readings = map (\<lambda>i. \<lparr>row_id = Suc i, row_device_id = ''a1'', row_device_name = ''PC'',
                            row_watts = w, row_location = ''default'',
                            row_timestamp = fst (clock i)\<rparr>) [0..<n],
      alerts = [], readings_seq = n, alerts_seq = 0\<rparr>"

text \<open>
  \<^verbatim>\<open>test_anomaly_detected_on_spike\<close>: fifteen readings of 100 W, then one of 9999 W.
\<close>

definition spike_scenario ::
  "(nat \<Rightarrow> string \<times> string) \<Rightarrow> error + (real db \<times> real EnergyReading \<times> real console list)" where
  "spike_scenario clock = steady_then clock 100 15 9999"

text \<open>The alert log a call leaves behind, if the call returned.\<close>

definition alerts_after :: "error + (real db \<times> real EnergyReading \<times> real console list) \<Rightarrow> real alert_row list option"
  where
  "alerts_after res = (case res of Inl e \<Rightarrow> None | Inr (d, r, out) \<Rightarrow> Some (alerts d))"

text \<open>Concrete inputs: a clock that stands still, and a device with ten stored readings
  that alternate between 99 W and 101 W.\<close>

definition clock0 :: "nat \<Rightarrow> string \<times> string" where
  "clock0 i = (''2024-01-01T00:00:00'', ''2024-01-01T00:00:00'')"

definition wobble_db :: "real db" where
  "wobble_db =
     \<lparr>devices = [],
      readings = map (\<lambda>i. \<lparr>row_id = Suc i, row_device_id = ''a1'', row_device_name = ''PC'',
                            row_watts = (if even i then 99 else 101),
                            row_location = ''default'',
                            row_timestamp = ''2024-01-01T00:00:00''\<rparr>) [0..<10],
      alerts = [], readings_seq = 10, alerts_seq = 0\<rparr>"

text \<open>A database with one registered device whose threshold is 1000 W.\<close>

definition kitchen_db :: "real db" where
  "kitchen_db = fst (add_device init_db ''2024-01-01T00:00:00'' ''d1'' ''AC'' ''kitchen'' 1000)"

text \<open>One device read on the first of January 2024, another on the second.\<close>

definition two_day_db :: "real db" where
  "two_day_db =
     \<lparr>devices = [],
      readings = [\<lparr>row_id = 1, row_device_id = ''p1'', row_device_name = ''Oven'',
                    row_watts = 3000, row_location = ''default'',
                    row_timestamp = ''2024-01-01T08:00:00''\<rparr>,
                  \<lparr>row_id = 2, row_device_id = ''p2'', row_device_name = ''Fan'',
                    row_watts = 50, row_location = ''default'',
                    row_timestamp = ''2024-01-02T09:00:00''\<rparr>],
      alerts = [], readings_seq = 2, alerts_seq = 0\<rparr>"

text \<open>Two devices with one reading of 0.01 W each on the first of January 2024.\<close>

definition penny_db :: "real db" where
  "penny_db =
     \<lparr>devices = [],
      readings = [\<lparr>row_id = 1, row_device_id = ''p1'', row_device_name = ''LED'',
                    row_watts = 1 / 100, row_location = ''default'',
                    row_timestamp = ''2024-01-01T08:00:00''\<rparr>,
                  \<lparr>row_id = 2, row_device_id = ''p2'', row_device_name = ''Clock'',
                    row_watts = 1 / 100, row_location = ''default'',
                    row_timestamp = ''2024-01-01T09:00:00''\<rparr>],
      alerts = [], readings_seq = 2, alerts_seq = 0\<rparr>"


text \<open>
  The database after nine readings of 100 W, with the device registered at a threshold
  of 1000 W.
\<close>

definition alarm_db :: "real db" where
  "alarm_db = fst (add_device (steady_db clock0 100 9) ''2024-01-01T00:00:00'' ''a1'' ''PC''
                     ''default'' 1000)"

section \<open>Basic facts\<close>

subsection \<open>The operations of exact arithmetic\<close>

lemma exact_simps:
  "is_nan exact x = False"
  "is_zero exact x = (x = 0)"
  "f_lit exact c = c"
  "f_sub exact x y = x - y"
  "f_mul exact x y = x * y"
  "f_div exact x y = x / y"
  "f_abs exact x = \<bar>x\<bar>"
  "f_gt exact x y = (y < x)"
  "f_round exact = py_round"
  "f_sum exact = sum_list"
  "f_mean exact = mean"
  "f_stdev exact = stdev"
  "f_avg exact = sql_avg"
  "f_max exact = sql_max"
  "f_min exact = sql_min"
  by (auto simp add: exact_def is_zero_def)

lemma cost_per_kwh_exact: "cost_per_kwh exact = COST_PER_KWH"
  by (simp add: cost_per_kwh_def COST_PER_KWH_def exact_simps)

subsection \<open>The anomaly block and \<open>add_reading\<close> on any arithmetic\<close>

lemma insert_alert_simps:
  "readings (insert_alert d a) = readings d"
  "devices (insert_alert d a) = devices d"
  "readings_seq (insert_alert d a) = readings_seq d"
  "alerts (insert_alert d a) = alerts d @ [EnergyAlert.extend a \<lparr>al_id = Suc (alerts_seq d)\<rparr>]"
  by (simp_all add: insert_alert_def)

lemma al_alert_type_extend: "al_alert_type (EnergyAlert.extend a x) = al_alert_type a"
  by (simp add: EnergyAlert.defs)

lemma inserted_simps:
  "readings (inserted d now r) = readings d @
      [\<lparr>row_id = Suc (readings_seq d), row_device_id = rd_device_id r,
        row_device_name = rd_device_name r, row_watts = rd_watts r,
        row_location = rd_location r,
        row_timestamp = py_or (rd_timestamp r) now\<rparr>]"
  "alerts (inserted d now r) = alerts d"
  "devices (inserted d now r) = devices d"
  "alerts_seq (inserted d now r) = alerts_seq d"
  "readings_seq (inserted d now r) = Suc (readings_seq d)"
  by (simp_all add: inserted_def append_reading_def Let_def)

lemma deviation_pct_on_total: "\<exists>v. deviation_pct_on ops w b = Inr v"
  by (simp add: deviation_pct_on_def true_div_def is_zero_def)

lemma anomaly_check_on_short:
  "length h < 10 \<Longrightarrow> anomaly_check_on ops d now r h = Inr (d, [])"
  by (simp add: anomaly_check_on_def)

lemma anomaly_check_on_eq:
  assumes "10 \<le> length h" and "f_mean ops h = Inr m" and "f_stdev ops h = Inr s"
  shows "anomaly_check_on ops d now r h =
     (if f_gt ops s (f_lit ops 0) \<and>
         f_gt ops (f_abs ops (f_sub ops (rd_watts r) m)) (f_mul ops (f_lit ops 2) s)
      then (case deviation_pct_on ops (rd_watts r) m of
              Inl e \<Rightarrow> Inl e
            | Inr dev \<Rightarrow>
               Inr (insert_alert d
                      \<lparr>al_device_id = rd_device_id r, al_device_name = rd_device_name r,
                        al_alert_type = ''anomaly'', al_watts = rd_watts r,
                        al_baseline_watts = f_round ops m 2,
                        al_deviation_pct = f_round ops dev 2,
                        al_message = Anomaly_message (rd_watts r) m dev,
                        al_created_at = now\<rparr>,
                    [Print_anomaly (Anomaly_message (rd_watts r) m dev)]))
      else Inr (d, []))"
  using assms by (auto simp add: anomaly_check_on_def Let_def split: sum.splits)

lemma anomaly_check_on_alerts:
  assumes "anomaly_check_on ops d now r h = Inr (d', out)"
  shows "readings d' = readings d \<and> devices d' = devices d \<and>
         readings_seq d' = readings_seq d \<and>
         (alerts d' = alerts d \<and> out = [] \<or>
          (\<exists>a. alerts d' = alerts d @ [a] \<and> al_alert_type a = ''anomaly'' \<and>
                al_device_id a = rd_device_id r \<and> al_watts a = rd_watts r \<and>
                out = [Print_anomaly (al_message a)]))"
  using assms
  by (auto simp add: anomaly_check_on_def insert_alert_simps EnergyAlert.defs Let_def
      split: if_splits sum.splits)

lemma add_reading_on_nan:
  "is_nan ops (rd_watts r) \<Longrightarrow> add_reading_on ops d now now' r = Inl IntegrityError"
  by (simp add: add_reading_on_def insert_reading_def Let_def)

lemma add_reading_on_eq:
  assumes "\<not> is_nan ops (rd_watts r)"
  shows "add_reading_on ops d now now' r =
     (case anomaly_check_on ops (inserted d now r) now'
             (r\<lparr>rd_timestamp := Some (py_or (rd_timestamp r) now),
                rd_id := Some (Suc (readings_seq d))\<rparr>)
             (history_read d now r) of
        Inl e \<Rightarrow> Inl e
      | Inr (d2, out) \<Rightarrow>
          (case threshold_check_on ops d2
                  (r\<lparr>rd_timestamp := Some (py_or (rd_timestamp r) now),
                     rd_id := Some (Suc (readings_seq d))\<rparr>) of
             Inl e \<Rightarrow> Inl e
           | Inr out' \<Rightarrow>
               Inr (d2,
                    r\<lparr>rd_timestamp := Some (py_or (rd_timestamp r) now),
                      rd_id := Some (Suc (readings_seq d))\<rparr>,
                    out @ out')))"
  using assms
  by (simp add: add_reading_on_def insert_reading_def inserted_def history_read_def
      append_reading_def Let_def)

lemma threshold_check_on_devices:
  "devices d' = devices d \<Longrightarrow> rd_device_id r' = rd_device_id r \<Longrightarrow> rd_watts r' = rd_watts r \<Longrightarrow>
   threshold_check_on ops d' r' = threshold_check_on ops d r"
  by (simp add: threshold_check_on_def split: option.splits)

subsection \<open>The anomaly block and \<open>add_reading\<close> in exact arithmetic\<close>

lemma threshold_check_eq:
  "threshold_check d reading =
     (case find (\<lambda>v. dv_device_id v = rd_device_id reading) (devices d) of
        None \<Rightarrow> []
      | Some dev \<Rightarrow>
          (if dv_threshold_watts dev > 0 \<and> rd_watts reading > dv_threshold_watts dev
           then [Print_threshold (rd_watts reading) (dv_threshold_watts dev)]
           else []))"
  by (simp add: threshold_check_def threshold_check_on_def exact_simps split: option.splits)

lemma threshold_check_on_exact: "threshold_check_on exact d reading = Inr (threshold_check d reading)"
  by (simp add: threshold_check_def threshold_check_on_def exact_simps split: option.splits)

lemma deviation_pct_total:
  "deviation_pct w b = Inr (if b > 0 then (w - b) / b * 100 else 0)"
  by (simp add: deviation_pct_def deviation_pct_on_def true_div_def exact_simps)

lemma mean_Inr: "xs \<noteq> [] \<Longrightarrow> mean xs = Inr (sum_list xs / real (length xs))"
  by (simp add: mean_def)

lemma stdev_Inr: "2 \<le> length xs \<Longrightarrow> \<exists>s. stdev xs = Inr s \<and> 0 \<le> s"
  by (auto simp add: stdev_def Let_def intro!: divide_nonneg_nonneg sum_list_nonneg)

lemma anomaly_check_short: "length h < 10 \<Longrightarrow> anomaly_check d now r h = Inr (d, [])"
  by (simp add: anomaly_check_def anomaly_check_on_short)

lemma anomaly_check_eq:
  assumes "10 \<le> length h" and "mean h = Inr m" and "stdev h = Inr s"
  shows "anomaly_check d now r h =
     (if 0 < s \<and> 2 * s < \<bar>rd_watts r - m\<bar>
      then Inr (insert_alert d
                  \<lparr>al_device_id = rd_device_id r, al_device_name = rd_device_name r,
                    al_alert_type = ''anomaly'', al_watts = rd_watts r,
                    al_baseline_watts = py_round m 2,
                    al_deviation_pct = py_round (if 0 < m then (rd_watts r - m) / m * 100 else 0) 2,
                    al_message = Anomaly_message (rd_watts r) m
                                   (if 0 < m then (rd_watts r - m) / m * 100 else 0),
                    al_created_at = now\<rparr>,
                [Print_anomaly (Anomaly_message (rd_watts r) m
                                   (if 0 < m then (rd_watts r - m) / m * 100 else 0))])
      else Inr (d, []))"
proof -
  have m: "f_mean exact h = Inr m" and s: "f_stdev exact h = Inr s"
    using assms by (simp_all add: exact_simps)
  have dv: "deviation_pct_on exact (rd_watts r) m
              = Inr (if 0 < m then (rd_watts r - m) / m * 100 else 0)"
    using deviation_pct_total [of "rd_watts r" m] by (simp add: deviation_pct_def)
  show ?thesis
    unfolding anomaly_check_def anomaly_check_on_eq [OF assms(1) m s] dv
    by (simp add: exact_simps)
qed

lemma anomaly_check_total: "\<exists>d' out. anomaly_check d now r h = Inr (d', out)"
proof (cases "10 \<le> length h")
  case False
  then show ?thesis by (simp add: anomaly_check_short)
next
  case True
  then have ne: "h \<noteq> []" and two: "2 \<le> length h" by auto
  from stdev_Inr [OF two] obtain s where s: "stdev h = Inr s" by blast
  show ?thesis
    by (simp add: anomaly_check_eq [OF True mean_Inr [OF ne] s])
qed

lemma anomaly_check_frame:
  assumes "anomaly_check d now r h = Inr (d', out)"
  shows "readings d' = readings d \<and> devices d' = devices d \<and> readings_seq d' = readings_seq d"
proof (cases "10 \<le> length h")
  case False
  with assms show ?thesis by (simp add: anomaly_check_short)
next
  case True
  then have ne: "h \<noteq> []" and two: "2 \<le> length h" by auto
  from stdev_Inr [OF two] obtain s where s: "stdev h = Inr s" by blast
  from assms show ?thesis
    by (auto simp add: anomaly_check_eq [OF True mean_Inr [OF ne] s] insert_alert_simps
        split: if_splits)
qed

lemma anomaly_check_alerts:
  assumes "anomaly_check d now r h = Inr (d', out)"
  shows "alerts d' = alerts d \<and> out = [] \<or>
         (\<exists>a. alerts d' = alerts d @ [a] \<and> al_alert_type a = ''anomaly'' \<and>
               al_device_id a = rd_device_id r \<and> al_watts a = rd_watts r \<and>
               out = [Print_anomaly (al_message a)])"
proof (cases "10 \<le> length h")
  case False
  with assms show ?thesis by (simp add: anomaly_check_short)
next
  case True
  then have ne: "h \<noteq> []" and two: "2 \<le> length h" by auto
  from stdev_Inr [OF two] obtain s where s: "stdev h = Inr s" by blast
  from assms show ?thesis
    by (auto simp add: anomaly_check_eq [OF True mean_Inr [OF ne] s] insert_alert_simps
        EnergyAlert.defs split: if_splits)
qed

lemma add_reading_eq:
  "add_reading d now now' r =
     (case anomaly_check (inserted d now r) now'
             (r\<lparr>rd_timestamp := Some (py_or (rd_timestamp r) now),
                rd_id := Some (Suc (readings_seq d))\<rparr>)
             (history_read d now r) of
        Inl e \<Rightarrow> Inl e
      | Inr (d2, out) \<Rightarrow>
          Inr (d2,
               r\<lparr>rd_timestamp := Some (py_or (rd_timestamp r) now),
                 rd_id := Some (Suc (readings_seq d))\<rparr>,
               out @ threshold_check d2
                       (r\<lparr>rd_timestamp := Some (py_or (rd_timestamp r) now),
                          rd_id := Some (Suc (readings_seq d))\<rparr>)))"
  by (simp add: add_reading_def add_reading_on_eq exact_simps anomaly_check_def
      threshold_check_on_exact split: sum.splits)

lemma spec_record_eq:
  "spec_record d now now' r =
     (case anomaly_check (inserted d now r) now'
             (r\<lparr>rd_timestamp := Some (py_or (rd_timestamp r) now),
                rd_id := Some (Suc (readings_seq d))\<rparr>)
             (recent_watts d (rd_device_id r)) of
        Inl e \<Rightarrow> Inl e
      | Inr (d2, out) \<Rightarrow>
          Inr (d2,
               r\<lparr>rd_timestamp := Some (py_or (rd_timestamp r) now),
                 rd_id := Some (Suc (readings_seq d))\<rparr>,
               out @ threshold_check d2
                       (r\<lparr>rd_timestamp := Some (py_or (rd_timestamp r) now),
                          rd_id := Some (Suc (readings_seq d))\<rparr>)))"
  by (simp add: spec_record_def inserted_def append_reading_def Let_def)

lemma add_reading_total: "\<exists>d' r' out. add_reading d now now' r = Inr (d', r', out)"
proof -
  obtain d2 out where "anomaly_check (inserted d now r) now'
             (r\<lparr>rd_timestamp := Some (py_or (rd_timestamp r) now),
                rd_id := Some (Suc (readings_seq d))\<rparr>)
             (history_read d now r) = Inr (d2, out)"
    using anomaly_check_total by blast
  then show ?thesis by (simp add: add_reading_eq)
qed


subsection \<open>The history query\<close>

lemma mset_order_desc: "mset (order_desc key rows) = mset rows"
  by (simp add: order_desc_def)

lemma length_order_desc: "length (order_desc key rows) = length rows"
  by (simp add: order_desc_def)

lemma length_recent_watts:
  "length (recent_watts d k) = min 100 (length (filter (\<lambda>x. row_device_id x = k) (readings d)))"
  by (simp add: recent_watts_def length_order_desc min_def)

lemma mset_recent_watts:
  assumes "length (filter (\<lambda>x. row_device_id x = k) (readings d)) \<le> 100"
  shows "mset (recent_watts d k) =
         image_mset row_watts (mset (filter (\<lambda>x. row_device_id x = k) (readings d)))"
proof -
  have "take 100 (order_desc row_timestamp (filter (\<lambda>x. row_device_id x = k) (readings d)))
        = order_desc row_timestamp (filter (\<lambda>x. row_device_id x = k) (readings d))"
    using assms by (simp add: length_order_desc)
  then show ?thesis
    by (simp add: recent_watts_def mset_order_desc del: mset_filter)
qed

lemma length_history_read:
  "length (history_read d now r) =
     min 100 (Suc (length (filter (\<lambda>x. row_device_id x = rd_device_id r) (readings d))))"
  by (simp add: history_read_def length_recent_watts inserted_simps)

lemma mset_history_read:
  assumes "length (filter (\<lambda>x. row_device_id x = rd_device_id r) (readings d)) < 100"
  shows "mset (history_read d now r) =
         add_mset (rd_watts r) (mset (recent_watts d (rd_device_id r)))"
proof -
  have a: "length (filter (\<lambda>x. row_device_id x = rd_device_id r) (readings (inserted d now r))) \<le> 100"
    using assms by (simp add: inserted_simps)
  have b: "length (filter (\<lambda>x. row_device_id x = rd_device_id r) (readings d)) \<le> 100"
    using assms by simp
  show ?thesis
    unfolding history_read_def mset_recent_watts [OF a] mset_recent_watts [OF b]
    by (simp add: inserted_simps del: mset_filter)
qed

subsection \<open>The decision depends on the history as a multiset\<close>

lemma sum_list_mset_cong: "mset h = mset h' \<Longrightarrow> sum_list (map f h) = sum_list (map (f::real \<Rightarrow> real) h')"
proof -
  assume "mset h = mset h'"
  then have "sum_mset (image_mset f (mset h)) = sum_mset (image_mset f (mset h'))" by simp
  then show ?thesis by (simp only: mset_map [symmetric] sum_mset_sum_list)
qed

lemma mean_mset: assumes "mset h = mset h'" shows "mean h = mean h'"
proof -
  have l: "length h = length h'" using assms by (rule mset_eq_length)
  have s: "sum_list h = sum_list h'" using sum_list_mset_cong [OF assms, of "\<lambda>x. x"] by simp
  have e: "(h = []) = (h' = [])" using l by auto
  show ?thesis by (simp add: mean_def l s e)
qed

lemma stdev_mset: assumes "mset h = mset h'" shows "stdev h = stdev h'"
proof -
  have l: "length h = length h'" using assms by (rule mset_eq_length)
  have s: "sum_list h = sum_list h'" using sum_list_mset_cong [OF assms, of "\<lambda>x. x"] by simp
  show ?thesis unfolding stdev_def Let_def l s
    using sum_list_mset_cong [OF assms, of "\<lambda>x. (x - sum_list h' / real (length h'))\<^sup>2"]
    by simp
qed

lemma anomaly_check_mset:
  assumes "mset h = mset h'" shows "anomaly_check d now r h = anomaly_check d now r h'"
proof -
  have l: "length h = length h'" using assms by (rule mset_eq_length)
  show ?thesis
    unfolding anomaly_check_def anomaly_check_on_def exact_simps l mean_mset [OF assms]
      stdev_mset [OF assms] ..
qed

lemma add_readings_append:
  "add_readings d (xs @ ys) =
     (case add_readings d xs of Inl e \<Rightarrow> Inl e | Inr d' \<Rightarrow> add_readings d' ys)"
  by (induction d xs rule: add_readings.induct) (auto split: sum.splits)

lemma two_sqrt_less_abs: "(2 * sqrt v < \<bar>a\<bar>) = (4 * v < a\<^sup>2)"
proof -
  have "2 * sqrt v = sqrt (4 * v)" by (simp add: real_sqrt_mult)
  moreover have "\<bar>a\<bar> = sqrt (a\<^sup>2)" by simp
  ultimately show ?thesis by (simp only: real_sqrt_less_iff)
qed

subsection \<open>A history of equal values never alerts\<close>

lemma mean_replicate: "0 < n \<Longrightarrow> mean (replicate n w) = Inr w"
  by (simp add: mean_def sum_list_replicate)

lemma stdev_replicate: "2 \<le> n \<Longrightarrow> stdev (replicate n w) = Inr 0"
  by (simp add: stdev_def sum_list_replicate Let_def)

lemma anomaly_check_replicate: "anomaly_check d now r (replicate n w) = Inr (d, [])"
proof (cases "10 \<le> n")
  case False then show ?thesis by (simp add: anomaly_check_short)
next
  case True
  then have "mean (replicate n w) = Inr w" "stdev (replicate n w) = Inr 0"
    by (simp_all add: mean_replicate stdev_replicate)
  with True show ?thesis by (simp add: anomaly_check_eq [where m = w and s = 0])
qed

subsection \<open>Steady runs on a fresh database\<close>

lemma all_same_replicate: "\<forall>x\<in>set xs. x = w \<Longrightarrow> xs = replicate (length xs) w"
  by (induction xs) auto

lemma set_recent_watts: "set (recent_watts d k) \<subseteq> row_watts ` set (readings d)"
proof -
  have "set (take 100 (order_desc row_timestamp (filter (\<lambda>x. row_device_id x = k) (readings d))))
        \<subseteq> set (order_desc row_timestamp (filter (\<lambda>x. row_device_id x = k) (readings d)))"
    by (rule set_take_subset)
  also have "\<dots> \<subseteq> set (readings d)" by (auto simp add: order_desc_def)
  finally show ?thesis by (auto simp add: recent_watts_def)
qed

lemma inserted_steady_db:
  "inserted (steady_db clock w n) (fst (clock n)) (EnergyReading_new ''a1'' ''PC'' w)
     = steady_db clock w (Suc n)"
  by (simp add: inserted_def append_reading_def steady_db_def EnergyReading_new_def
      py_or_def Let_def)

lemma threshold_check_no_devices: "devices d = [] \<Longrightarrow> threshold_check d r = []"
  by (simp add: threshold_check_eq)

lemma steady_db_simps:
  "devices (steady_db clock w n) = []"
  "alerts (steady_db clock w n) = []"
  "readings_seq (steady_db clock w n) = n"
  "alerts_seq (steady_db clock w n) = 0"
  "length (readings (steady_db clock w n)) = n"
  "filter (\<lambda>x. row_device_id x = ''a1'') (readings (steady_db clock w n))
     = readings (steady_db clock w n)"
  "map row_watts (readings (steady_db clock w n)) = replicate n w"
  by (simp_all add: steady_db_def map_replicate_const comp_def)

lemma add_reading_steady_db:
  "\<exists>r'. add_reading (steady_db clock w n) (fst (clock n)) (snd (clock n))
           (EnergyReading_new ''a1'' ''PC'' w) = Inr (steady_db clock w (Suc n), r', [])"
proof -
  let ?r = "EnergyReading_new ''a1'' ''PC'' w"
  let ?h = "history_read (steady_db clock w n) (fst (clock n)) ?r"
  have "set ?h \<subseteq> row_watts ` set (readings (steady_db clock w (Suc n)))"
    unfolding history_read_def inserted_steady_db by (rule set_recent_watts)
  then have "\<forall>x\<in>set ?h. x = w" by (auto simp add: steady_db_def)
  then have "?h = replicate (length ?h) w" by (rule all_same_replicate)
  then have "anomaly_check (steady_db clock w (Suc n)) (snd (clock n))
          (?r\<lparr>rd_timestamp := Some (py_or (rd_timestamp ?r) (fst (clock n))),
                rd_id := Some (Suc (readings_seq (steady_db clock w n)))\<rparr>) ?h
        = Inr (steady_db clock w (Suc n), [])"
    using anomaly_check_replicate by metis
  then show ?thesis
    by (simp add: add_reading_eq inserted_steady_db threshold_check_no_devices steady_db_simps)
qed

lemma steady_Suc:
  "steady clock w (Suc n) =
     steady clock w n @ [(fst (clock n), snd (clock n), EnergyReading_new ''a1'' ''PC'' w)]"
  by (simp add: steady_def)

lemma add_readings_steady: "add_readings init_db (steady clock w n) = Inr (steady_db clock w n)"
proof (induction n)
  case 0
  show ?case by (simp add: steady_def steady_db_def init_db_def)
next
  case (Suc n)
  from add_reading_steady_db [of clock w n] obtain r' where
    "add_reading (steady_db clock w n) (fst (clock n)) (snd (clock n))
           (EnergyReading_new ''a1'' ''PC'' w) = Inr (steady_db clock w (Suc n), r', [])" ..
  with Suc show ?case by (simp add: steady_Suc add_readings_append)
qed

lemma steady_then_eq:
  "steady_then clock w n x =
     add_reading (steady_db clock w n) (fst (clock n)) (snd (clock n))
       (EnergyReading_new ''a1'' ''PC'' x)"
  by (simp add: steady_then_def add_readings_steady)

lemma recent_watts_steady_db: "n \<le> 100 \<Longrightarrow> mset (recent_watts (steady_db clock w n) ''a1'') = mset (replicate n w)"
proof -
  assume n: "n \<le> 100"
  have f: "filter (\<lambda>x. row_device_id x = ''a1'') (readings (steady_db clock w n))
           = readings (steady_db clock w n)"
    by (simp add: steady_db_def)
  have "length (filter (\<lambda>x. row_device_id x = ''a1'') (readings (steady_db clock w n))) \<le> 100"
    using n by (simp add: steady_db_def)
  from mset_recent_watts [OF this] have "mset (recent_watts (steady_db clock w n) ''a1'')
     = image_mset row_watts (mset (readings (steady_db clock w n)))"
    unfolding f .
  also have "\<dots> = mset (map row_watts (readings (steady_db clock w n)))" by simp
  also have "map row_watts (readings (steady_db clock w n)) = replicate n w"
    by (simp add: steady_db_def map_replicate_const comp_def)
  finally show ?thesis .
qed

lemma history_read_steady_db:
  assumes "n < 100"
  shows "mset (history_read (steady_db clock w n) now (EnergyReading_new ''a1'' ''PC'' x))
         = mset (x # replicate n w)"
proof -
  have r: "rd_device_id (EnergyReading_new ''a1'' ''PC'' x) = ''a1''" 
      "rd_watts (EnergyReading_new ''a1'' ''PC'' x) = x"
    by (simp_all add: EnergyReading_new_def)
  have "length (filter (\<lambda>y. row_device_id y = rd_device_id (EnergyReading_new ''a1'' ''PC'' x))
      (readings (steady_db clock w n))) < 100"
    using assms by (simp add: r steady_db_simps)
  from mset_history_read [OF this] show ?thesis
    using assms by (simp add: r recent_watts_steady_db)
qed

lemma mean_spike: "mean (x # replicate n w) = Inr ((x + real n * w) / (1 + real n))"
  by (simp add: mean_def sum_list_replicate)

lemma stdev_spike:
  "1 \<le> n \<Longrightarrow> stdev (x # replicate n w) =
     Inr (sqrt (((x - (x + real n * w) / (1 + real n))\<^sup>2
                 + real n * (w - (x + real n * w) / (1 + real n))\<^sup>2) / real n))"
  by (simp add: stdev_def sum_list_replicate Let_def)

lemma EnergyReading_new_simps:
  "rd_device_id (EnergyReading_new i n w) = i"
  "rd_device_name (EnergyReading_new i n w) = n"
  "rd_watts (EnergyReading_new i n w) = w"
  "rd_timestamp (EnergyReading_new i n w) = None"
  "rd_location (EnergyReading_new i n w) = ''default''"
  "rd_id (EnergyReading_new i n w) = None"
  by (simp_all add: EnergyReading_new_def)

lemma steady_then_spike:
  assumes "9 \<le> n" and "n < 100"
  shows "steady_then clock w n x =
     (let m = (x + real n * w) / (1 + real n);
          v = ((x - m)\<^sup>2 + real n * (w - m)\<^sup>2) / real n;
          dev = (if 0 < m then (x - m) / m * 100 else 0);
          r' = (EnergyReading_new ''a1'' ''PC'' x)
                 \<lparr>rd_timestamp := Some (fst (clock n)), rd_id := Some (Suc n)\<rparr>;
          d1 = inserted (steady_db clock w n) (fst (clock n)) (EnergyReading_new ''a1'' ''PC'' x)
      in if 0 < v \<and> 4 * v < (x - m)\<^sup>2
         then Inr (insert_alert d1
                     \<lparr>al_device_id = ''a1'', al_device_name = ''PC'',
                       al_alert_type = ''anomaly'', al_watts = x,
                       al_baseline_watts = py_round m 2,
                       al_deviation_pct = py_round dev 2,
                       al_message = Anomaly_message x m dev,
                       al_created_at = snd (clock n)\<rparr>,
                   r', [Print_anomaly (Anomaly_message x m dev)])
         else Inr (d1, r', []))"
proof -
  let ?rx = "EnergyReading_new ''a1'' ''PC'' x"
  let ?d = "steady_db clock w n"
  let ?r' = "?rx\<lparr>rd_timestamp := Some (py_or (rd_timestamp ?rx) (fst (clock n))),
                  rd_id := Some (Suc (readings_seq ?d))\<rparr>"
  have len: "10 \<le> length (x # replicate n w)" and one: "1 \<le> n" using assms by simp_all
  have eq1: "anomaly_check (inserted ?d (fst (clock n)) ?rx) (snd (clock n)) ?r'
          (history_read ?d (fst (clock n)) ?rx)
        = anomaly_check (inserted ?d (fst (clock n)) ?rx) (snd (clock n)) ?r' (x # replicate n w)"
    by (rule anomaly_check_mset) (rule history_read_steady_db [OF assms(2)])
  note eq2 = anomaly_check_eq [OF len mean_spike stdev_spike [OF one],
      of "inserted ?d (fst (clock n)) ?rx" "snd (clock n)" ?r']
  show ?thesis
    unfolding steady_then_eq add_reading_eq eq1 eq2
    by (simp add: EnergyReading_new_simps two_sqrt_less_abs Let_def threshold_check_no_devices insert_alert_simps
        inserted_simps steady_db_simps py_or_def)
qed

lemma py_round_zero: "py_round 0 n = 0"
  by (simp add: py_round_def round_half_even_def)

subsection \<open>The decision without square roots\<close>

lemma stdev_sqrt:
  "2 \<le> length h \<Longrightarrow>
   stdev h = Inr (sqrt (sum_list (map (\<lambda>x. (x - sum_list h / real (length h))\<^sup>2) h)
                        / real (length h - 1)))"
  by (simp add: stdev_def Let_def)

lemma anomaly_check_eq_var:
  assumes "10 \<le> length h"
  shows "anomaly_check d now r h =
     (let m = sum_list h / real (length h);
          v = sum_list (map (\<lambda>x. (x - m)\<^sup>2) h) / real (length h - 1);
          dev = (if 0 < m then (rd_watts r - m) / m * 100 else 0)
      in if 0 < v \<and> 4 * v < (rd_watts r - m)\<^sup>2
         then Inr (insert_alert d
                  \<lparr>al_device_id = rd_device_id r, al_device_name = rd_device_name r,
                    al_alert_type = ''anomaly'', al_watts = rd_watts r,
                    al_baseline_watts = py_round m 2,
                    al_deviation_pct = py_round dev 2,
                    al_message = Anomaly_message (rd_watts r) m dev,
                    al_created_at = now\<rparr>,
                [Print_anomaly (Anomaly_message (rd_watts r) m dev)])
         else Inr (d, []))"
proof -
  from assms have ne: "h \<noteq> []" and two: "2 \<le> length h" by auto
  show ?thesis
    unfolding anomaly_check_eq [OF assms mean_Inr [OF ne] stdev_sqrt [OF two]]
      two_sqrt_less_abs real_sqrt_gt_0_iff Let_def ..
qed

subsection \<open>The concrete inputs\<close>

lemma wobble_db_simps:
  "alerts wobble_db = []"
  "devices wobble_db = []"
  "readings_seq wobble_db = 10"
  "alerts_seq wobble_db = 0"
  by (simp_all add: wobble_db_def)

lemma recent_watts_wobble_db:
  "recent_watts wobble_db ''a1'' = [99, 101, 99, 101, 99, 101, 99, 101, 99, 101]"
  by code_simp

lemma count_wobble_db:
  "length (filter (\<lambda>x. row_device_id x = ''a1'') (readings wobble_db)) = 10"
  by code_simp

lemma anomaly_check_history_read:
  assumes "length (filter (\<lambda>x. row_device_id x = rd_device_id r) (readings d)) < 100"
  shows "anomaly_check d' now' r' (history_read d now r) =
         anomaly_check d' now' r' (rd_watts r # recent_watts d (rd_device_id r))"
  by (rule anomaly_check_mset) (simp add: mset_history_read [OF assms])

subsection \<open>The aggregator on any arithmetic\<close>

lemma device_stats_loop_all2:
  "device_stats_loop ops us = Inr ss \<Longrightarrow> list_all2 (\<lambda>u s. device_stats ops u = Inr s) us ss"
proof (induction us arbitrary: ss)
  case Nil
  then show ?case by simp
next
  case (Cons u us)
  from Cons.prems obtain s ss' where "device_stats ops u = Inr s"
    "device_stats_loop ops us = Inr ss'" "ss = s # ss'"
    by (auto split: sum.splits)
  with Cons.IH show ?case by simp
qed



lemma device_stats_error: "device_stats ops u = Inl e \<Longrightarrow> e = TypeError"
  by (auto simp add: device_stats_def Let_def split: option.splits)

lemma device_stats_loop_error: "device_stats_loop ops us = Inl e \<Longrightarrow> e = TypeError"
  by (induction us) (auto split: sum.splits dest: device_stats_error)

lemma device_stats_fields:
  assumes "device_stats ops u = Inr s"
  shows "st_device_id s = u_device_id u \<and> st_device_name s = u_device_name u \<and>
         st_location s = u_location u \<and> st_reading_count s = u_cnt u \<and>
         st_last_reading_at s = u_last_ts u \<and>
         (\<exists>a. u_avg_watts u = Some a \<and> st_avg_watts s = f_round ops a 2 \<and>
              st_daily_kwh s = f_round ops (kwh_of ops a) 4 \<and>
              st_daily_cost_usd s = f_round ops (cost_of ops a) 4)"
  using assms
  by (auto simp add: device_stats_def kwh_of_def cost_of_def Let_def split: option.splits)


lemma group_nonempty:
  assumes "k \<in> group_key ` set rows"
  shows "filter (\<lambda>r. group_key r = k) rows \<noteq> []"
  using assms by (auto simp add: filter_empty_conv)

lemma usage_of_group_simps:
  "u_device_id (usage_of_group ops rows k) = fst k"
  "u_device_name (usage_of_group ops rows k) = fst (snd k)"
  "u_location (usage_of_group ops rows k) = snd (snd k)"
  "u_cnt (usage_of_group ops rows k) = length (filter (\<lambda>r. group_key r = k) rows)"
  "u_avg_watts (usage_of_group ops rows k) = f_avg ops (map row_watts (filter (\<lambda>r. group_key r = k) rows))"
  "u_max_watts (usage_of_group ops rows k) = f_max ops (map row_watts (filter (\<lambda>r. group_key r = k) rows))"
  "u_min_watts (usage_of_group ops rows k) = f_min ops (map row_watts (filter (\<lambda>r. group_key r = k) rows))"
  by (simp_all add: usage_of_group_def Let_def)

lemma set_daily_usage_query:
  "set (daily_usage_query ops d date dev) =
     usage_of_group ops (selected_readings d date dev) ` group_key ` set (selected_readings d date dev)"
  by (simp add: daily_usage_query_def Let_def)

lemma get_daily_usage_on_row:
  assumes "get_daily_usage_on ops d today dev date_str = Inr stats" and "s \<in> set stats"
  shows "\<exists>k \<in> group_key ` set (selected_readings d (py_or date_str today) dev).
           device_stats ops (usage_of_group ops (selected_readings d (py_or date_str today) dev) k)
             = Inr s"
proof -
  let ?rows = "selected_readings d (py_or date_str today) dev"
  let ?us = "daily_usage_query ops d (py_or date_str today) dev"
  from assms(1) have all2: "list_all2 (\<lambda>u s. device_stats ops u = Inr s) ?us stats"
    by (simp add: get_daily_usage_on_def Let_def device_stats_loop_all2)
  from assms(2) obtain i where i: "i < length stats" and si: "s = stats ! i"
    by (auto simp add: in_set_conv_nth)
  from all2 have len: "length ?us = length stats" by (rule list_all2_lengthD)
  from list_all2_nthD2 [OF all2 i] have us: "device_stats ops (?us ! i) = Inr s" by (simp add: si)
  have "?us ! i \<in> set ?us" using i len by simp
  then obtain k where k: "k \<in> group_key ` set ?rows" and u: "?us ! i = usage_of_group ops ?rows k"
    unfolding set_daily_usage_query by blast
  with us show ?thesis by auto
qed


lemma get_daily_usage_on_error:
  "get_daily_usage_on ops d today dev date_str = Inl e \<Longrightarrow> e = TypeError"
  by (simp add: get_daily_usage_on_def Let_def device_stats_loop_error)

lemma get_daily_usage_on_group:
  assumes "get_daily_usage_on ops d today dev date_str = Inr stats" and "s \<in> set stats"
  shows "stats_group d (py_or date_str today) dev s \<noteq> [] \<and>
         st_reading_count s = length (stats_group d (py_or date_str today) dev s) \<and>
         (\<exists>a. f_avg ops (map row_watts (stats_group d (py_or date_str today) dev s)) = Some a \<and>
              st_avg_watts s = f_round ops a 2 \<and>
              st_daily_kwh s = f_round ops (kwh_of ops a) 4 \<and>
              st_daily_cost_usd s = f_round ops (cost_of ops a) 4)"
proof -
  let ?rows = "selected_readings d (py_or date_str today) dev"
  from get_daily_usage_on_row [OF assms] obtain k
    where k: "k \<in> group_key ` set ?rows"
      and s: "device_stats ops (usage_of_group ops ?rows k) = Inr s"
    by blast
  from device_stats_fields [OF s]
  have key: "(st_device_id s, st_device_name s, st_location s) = k"
    and cnt: "st_reading_count s = length (filter (\<lambda>r. group_key r = k) ?rows)"
    and avg: "\<exists>a. f_avg ops (map row_watts (filter (\<lambda>r. group_key r = k) ?rows)) = Some a \<and>
              st_avg_watts s = f_round ops a 2 \<and>
              st_daily_kwh s = f_round ops (kwh_of ops a) 4 \<and>
              st_daily_cost_usd s = f_round ops (cost_of ops a) 4"
    by (simp_all add: usage_of_group_simps)
  have g: "stats_group d (py_or date_str today) dev s = filter (\<lambda>r. group_key r = k) ?rows"
    by (simp add: stats_group_def key)
  from group_nonempty [OF k] cnt avg show ?thesis unfolding g by blast
qed


subsection \<open>The aggregator in exact arithmetic, on the concrete inputs\<close>


lemma penny_selected: "selected_readings penny_db ''2024-01-01'' None = readings penny_db"
  by code_simp

lemma penny_keys:
  "sort (remdups (map group_key (readings penny_db)))
     = [(''p1'', ''LED'', ''default''), (''p2'', ''Clock'', ''default'')]"
  by code_simp

lemma penny_usage:
  "get_daily_usage penny_db ''2024-01-01'' None None =
     Inr [\<lparr>st_device_id = ''p1'', st_device_name = ''LED'', st_location = ''default'',
           st_avg_watts = 1 / 100, st_max_watts = 1 / 100, st_min_watts = 1 / 100,
           st_daily_kwh = 1 / 5000, st_daily_cost_usd = 0, st_reading_count = 1,
           st_last_reading_at = Some ''2024-01-01T08:00:00''\<rparr>,
          \<lparr>st_device_id = ''p2'', st_device_name = ''Clock'', st_location = ''default'',
           st_avg_watts = 1 / 100, st_max_watts = 1 / 100, st_min_watts = 1 / 100,
           st_daily_kwh = 1 / 5000, st_daily_cost_usd = 0, st_reading_count = 1,
           st_last_reading_at = Some ''2024-01-01T09:00:00''\<rparr>]"
  unfolding get_daily_usage_def get_daily_usage_on_def daily_usage_query_def Let_def
  by (simp add: py_or_def penny_selected penny_keys)
     (simp add: penny_db_def usage_of_group_def group_key_def device_stats_def exact_simps
        sql_avg_def sql_max_def sql_min_def cost_per_kwh_def py_round_def round_half_even_def
        Let_def)

lemma two_day_selected:
  "selected_readings two_day_db ''2024-01-02'' None = [readings two_day_db ! 1]"
  "selected_readings two_day_db ''2024-01-01'' None = [readings two_day_db ! 0]"
  by code_simp+


lemma two_day_usage_first:
  "get_daily_usage two_day_db ''2024-01-01'' None None =
     Inr [\<lparr>st_device_id = ''p1'', st_device_name = ''Oven'', st_location = ''default'',
           st_avg_watts = 3000, st_max_watts = 3000, st_min_watts = 3000,
           st_daily_kwh = 72, st_daily_cost_usd = 72 * COST_PER_KWH, st_reading_count = 1,
           st_last_reading_at = Some ''2024-01-01T08:00:00''\<rparr>]"
  unfolding get_daily_usage_def get_daily_usage_on_def daily_usage_query_def Let_def
  by (simp add: py_or_def two_day_selected)
     (simp add: two_day_db_def usage_of_group_def group_key_def device_stats_def exact_simps
        sql_avg_def sql_max_def sql_min_def cost_per_kwh_def COST_PER_KWH_def py_round_def
        round_half_even_def Let_def)

lemma get_anomalies_in_range:
  "- (2 ^ 63) \<le> limit \<Longrightarrow> limit < 2 ^ 63 \<Longrightarrow>
   get_anomalies d limit = Inr (sql_limit limit (order_desc al_created_at (alerts d)))"
  by (simp add: get_anomalies_def)



subsection \<open>Further facts on any arithmetic\<close>


lemma threshold_check_on_returns:
  "(\<exists>out. threshold_check_on ops d r = Inr out) = threshold_not_null ops d (rd_device_id r)"
  by (simp add: threshold_check_on_def threshold_not_null_def split: option.splits)


lemma add_reading_on_short:
  assumes "\<not> is_nan ops (rd_watts r)" and "length (history_read d now r) < 10"
      and "threshold_not_null ops d (rd_device_id r)"
  shows "\<exists>r' out. add_reading_on ops d now now' r = Inr (inserted d now r, r', out)"
proof -
  let ?r' = "r\<lparr>rd_timestamp := Some (py_or (rd_timestamp r) now),
                rd_id := Some (Suc (readings_seq d))\<rparr>"
  have "threshold_check_on ops (inserted d now r) ?r' = threshold_check_on ops d r"
    by (rule threshold_check_on_devices) (simp_all add: inserted_simps)
  moreover from assms(3) obtain out where "threshold_check_on ops d r = Inr out"
    using threshold_check_on_returns by blast
  ultimately show ?thesis
    by (simp add: add_reading_on_eq [OF assms(1)] anomaly_check_on_short [OF assms(2)])
qed


lemma anomaly_check_on_devices:
  "anomaly_check_on ops (d\<lparr>devices := devs\<rparr>) now r h =
     (case anomaly_check_on ops d now r h of
        Inl e \<Rightarrow> Inl e
      | Inr (d2, out) \<Rightarrow> Inr (d2\<lparr>devices := devs\<rparr>, out))"
proof (cases "10 \<le> length h")
  case False
  then show ?thesis by (simp add: anomaly_check_on_short)
next
  case True
  show ?thesis
  proof (cases "f_mean ops h")
    case (Inl e)
    with True show ?thesis by (simp add: anomaly_check_on_def)
  next
    case m: (Inr m)
    show ?thesis
    proof (cases "f_stdev ops h")
      case (Inl e)
      with True m show ?thesis by (simp add: anomaly_check_on_def)
    next
      case s: (Inr s)
      obtain v where "deviation_pct_on ops (rd_watts r) m = Inr v"
        using deviation_pct_on_total [of ops "rd_watts r" m] by auto
      then show ?thesis by (simp add: anomaly_check_on_eq [OF True m s] insert_alert_def)
    qed
  qed
qed

lemma inserted_devices:
  "inserted (d\<lparr>devices := devs\<rparr>) now r = (inserted d now r)\<lparr>devices := devs\<rparr>"
  by (simp add: inserted_def append_reading_def Let_def)

lemma history_read_devices: "history_read (d\<lparr>devices := devs\<rparr>) now r = history_read d now r"
  by (simp add: history_read_def recent_watts_def inserted_devices)


lemma add_reading_on_result:
  assumes "add_reading_on ops d now now' r = Inr (d', r', out)"
  shows "\<not> is_nan ops (rd_watts r) \<and>
         r' = r\<lparr>rd_timestamp := Some (py_or (rd_timestamp r) now),
                 rd_id := Some (Suc (readings_seq d))\<rparr> \<and>
         (\<exists>out1 out2.
            anomaly_check_on ops (inserted d now r) now' r' (history_read d now r) = Inr (d', out1) \<and>
            threshold_check_on ops d r = Inr out2 \<and> out = out1 @ out2)"
proof -
  have nn: "\<not> is_nan ops (rd_watts r)"
    using assms by (auto simp add: add_reading_on_nan)
  let ?r' = "r\<lparr>rd_timestamp := Some (py_or (rd_timestamp r) now),
                rd_id := Some (Suc (readings_seq d))\<rparr>"
  show ?thesis
  proof (cases "anomaly_check_on ops (inserted d now r) now' ?r' (history_read d now r)")
    case (Inl e)
    with assms nn show ?thesis by (simp add: add_reading_on_eq)
  next
    case (Inr x)
    obtain d2 out1 where x: "x = (d2, out1)" by (cases x)
    note ac = Inr [unfolded x]
    from anomaly_check_on_alerts [OF ac] have dv: "devices d2 = devices d"
      by (simp add: inserted_simps)
    have th: "threshold_check_on ops d2 ?r' = threshold_check_on ops d r"
      by (rule threshold_check_on_devices) (simp_all add: dv)
    show ?thesis
    proof (cases "threshold_check_on ops d r")
      case (Inl e)
      with assms nn show ?thesis by (simp add: add_reading_on_eq ac th)
    next
      case out2: (Inr out2)
      from assms have "d' = d2 \<and> r' = ?r' \<and> out = out1 @ out2"
        by (simp add: add_reading_on_eq [OF nn] ac th out2)
      with nn ac out2 show ?thesis by simp
    qed
  qed
qed

subsection \<open>Further concrete inputs\<close>



lemma wobble_prior_stats:
  "length (recent_watts wobble_db ''a1'') = 10"
  "mean (recent_watts wobble_db ''a1'') = Inr 100"
  "stdev (recent_watts wobble_db ''a1'') = Inr (sqrt (10 / 9))"
  by (simp_all add: recent_watts_wobble_db mean_def stdev_def Let_def)

lemma wobble_two_sigma: "2 * sqrt (10 / 9) < \<bar>205 / 2 - (100::real)\<bar>"
  unfolding two_sqrt_less_abs by (simp add: power2_eq_square)

lemma wobble_nudge_add_reading:
  "alerts_after (add_reading wobble_db ''2024-01-01T00:00:01'' ''2024-01-01T00:00:01''
                   (EnergyReading_new ''a1'' ''PC'' (205 / 2))) = Some []"
proof -
  have c: "length (filter (\<lambda>x. row_device_id x = rd_device_id (EnergyReading_new ''a1'' ''PC'' (205 / 2)))
             (readings wobble_db)) < 100"
    by (simp add: EnergyReading_new_simps count_wobble_db)
  show ?thesis
    unfolding add_reading_eq anomaly_check_history_read [OF c]
    by (simp add: EnergyReading_new_simps recent_watts_wobble_db anomaly_check_eq_var Let_def
        power2_eq_square alerts_after_def inserted_simps wobble_db_simps)
qed

lemma steady_nine_history_stats:
  "length (history_read (steady_db clock0 100 9) (fst (clock0 9)) (EnergyReading_new ''a1'' ''PC'' 9999)) = 10"
  "mean (history_read (steady_db clock0 100 9) (fst (clock0 9)) (EnergyReading_new ''a1'' ''PC'' 9999))
     = Inr (10899 / 10)"
  "stdev (history_read (steady_db clock0 100 9) (fst (clock0 9)) (EnergyReading_new ''a1'' ''PC'' 9999))
     = Inr (sqrt (97990201 / 10))"
proof -
  let ?h = "history_read (steady_db clock0 100 9) (fst (clock0 9)) (EnergyReading_new ''a1'' ''PC'' 9999)"
  have m: "mset ?h = mset (9999 # replicate 9 100)"
    by (rule history_read_steady_db) simp
  show "length ?h = 10" using mset_eq_length [OF m] by simp
  show "mean ?h = Inr (10899 / 10)"
    unfolding mean_mset [OF m] mean_spike by simp
  show "stdev ?h = Inr (sqrt (97990201 / 10))"
    unfolding stdev_mset [OF m] by (simp add: stdev_spike power2_eq_square)
qed

lemma wobble_level_history_stats:
  "length (history_read wobble_db ''2024-01-01T00:00:01'' (EnergyReading_new ''a1'' ''PC'' 100)) = 11"
  "mean (history_read wobble_db ''2024-01-01T00:00:01'' (EnergyReading_new ''a1'' ''PC'' 100))
     = Inr 100"
  "stdev (history_read wobble_db ''2024-01-01T00:00:01'' (EnergyReading_new ''a1'' ''PC'' 100))
     = Inr 1"
proof -
  let ?h = "history_read wobble_db ''2024-01-01T00:00:01'' (EnergyReading_new ''a1'' ''PC'' 100)"
  have c: "length (filter (\<lambda>x. row_device_id x = rd_device_id (EnergyReading_new ''a1'' ''PC'' 100))
             (readings wobble_db)) < 100"
    by (simp add: EnergyReading_new_simps count_wobble_db)
  have m: "mset ?h = mset (100 # recent_watts wobble_db ''a1'')"
    using mset_history_read [OF c] by (simp add: EnergyReading_new_simps)
  show "length ?h = 11" using mset_eq_length [OF m] by (simp add: recent_watts_wobble_db)
  show "mean ?h = Inr 100"
    unfolding mean_mset [OF m] by (simp add: recent_watts_wobble_db mean_def)
  show "stdev ?h = Inr 1"
    unfolding stdev_mset [OF m] by (simp add: recent_watts_wobble_db stdev_def Let_def)
qed

lemma alarm_db_eq:
  "alarm_db = (steady_db clock0 100 9)
     \<lparr>devices := [\<lparr>dv_device_id = ''a1'', dv_device_name = ''PC'', dv_location = ''default'',
                    dv_threshold_watts = 1000, dv_created_at = ''2024-01-01T00:00:00''\<rparr>]\<rparr>"
  by (simp add: alarm_db_def add_device_def steady_db_simps)

lemma alarm_db_simps:
  "devices alarm_db = [\<lparr>dv_device_id = ''a1'', dv_device_name = ''PC'', dv_location = ''default'',
                    dv_threshold_watts = 1000, dv_created_at = ''2024-01-01T00:00:00''\<rparr>]"
  "alerts alarm_db = []"
  by (simp_all add: alarm_db_eq steady_db_simps)


section \<open>The claims\<close>

subsection \<open>C1: the history is read after the insert\<close>

text \<open>
  Claim C1, as amended. \<open>add_reading\<close> commits the reading first and reads the history
  afterwards. For a device with fewer than 100 stored readings the history it decides on
  is, as a multiset, the prior history together with the new reading's own watts, and
  the outcome of the call is the anomaly block run on that enlarged history: the new
  reading contributes to its own baseline and spread.
\<close>

theorem history_includes_new_reading:
  assumes "length (filter (\<lambda>x. row_device_id x = rd_device_id r) (readings d)) < 100"
  shows "mset (history_read d now r) =
           add_mset (rd_watts r) (mset (recent_watts d (rd_device_id r))) \<and>
         (\<exists>row. readings (inserted d now r) = readings d @ [row] \<and> row_watts row = rd_watts r) \<and>
         (\<exists>r'. rd_watts r' = rd_watts r \<and>
            add_reading d now now' r =
              (case anomaly_check (inserted d now r) now' r'
                      (rd_watts r # recent_watts d (rd_device_id r)) of
                 Inl e \<Rightarrow> Inl e
               | Inr (d2, out) \<Rightarrow> Inr (d2, r', out @ threshold_check d2 r')))"
proof -
  let ?r' = "r\<lparr>rd_timestamp := Some (py_or (rd_timestamp r) now),
                rd_id := Some (Suc (readings_seq d))\<rparr>"
  have "add_reading d now now' r =
              (case anomaly_check (inserted d now r) now' ?r'
                      (rd_watts r # recent_watts d (rd_device_id r)) of
                 Inl e \<Rightarrow> Inl e
               | Inr (d2, out) \<Rightarrow> Inr (d2, ?r', out @ threshold_check d2 ?r'))"
    unfolding add_reading_eq anomaly_check_history_read [OF assms] ..
  moreover have "rd_watts ?r' = rd_watts r" by simp
  ultimately have "\<exists>r'. rd_watts r' = rd_watts r \<and>
            add_reading d now now' r =
              (case anomaly_check (inserted d now r) now' r'
                      (rd_watts r # recent_watts d (rd_device_id r)) of
                 Inl e \<Rightarrow> Inl e
               | Inr (d2, out) \<Rightarrow> Inr (d2, r', out @ threshold_check d2 r'))"
    by blast
  then show ?thesis
    by (simp add: mset_history_read [OF assms] inserted_simps)
qed

lemma wobble_spike_add_reading:
  "map_option (map al_baseline_watts)
     (alerts_after (add_reading wobble_db ''2024-01-01T00:00:01'' ''2024-01-01T00:00:01''
                      (EnergyReading_new ''a1'' ''PC'' 9999))) = Some [99991 / 100]"
proof -
  have c: "length (filter (\<lambda>x. row_device_id x = rd_device_id (EnergyReading_new ''a1'' ''PC'' 9999))
             (readings wobble_db)) < 100"
    by (simp add: EnergyReading_new_simps count_wobble_db)
  have a: "py_round (10999 / 11) 2 = 99991 / 100" by code_simp
  show ?thesis
    unfolding add_reading_eq anomaly_check_history_read [OF c]
    by (simp add: EnergyReading_new_simps recent_watts_wobble_db anomaly_check_eq_var Let_def
        power2_eq_square a alerts_after_def insert_alert_simps inserted_simps wobble_db_simps
        EnergyAlert.defs)
qed

lemma wobble_spike_spec_record:
  "map_option (map al_baseline_watts)
     (alerts_after (spec_record wobble_db ''2024-01-01T00:00:01'' ''2024-01-01T00:00:01''
                      (EnergyReading_new ''a1'' ''PC'' 9999))) = Some [100]"
proof -
  have a: "py_round 100 2 = 100" by code_simp
  show ?thesis
    unfolding spec_record_eq
    by (simp add: EnergyReading_new_simps recent_watts_wobble_db anomaly_check_eq_var Let_def
        power2_eq_square a alerts_after_def insert_alert_simps inserted_simps wobble_db_simps
        EnergyAlert.defs)
qed

text \<open>
  Claim C1 as stated fails. On the database with ten readings alternating between 99 W
  and 101 W the prior history has mean 100; deciding on the history without the new
  reading, as the claim words it, stores the baseline 100 for a reading of 9999 W, while
  \<open>add_reading\<close> stores 999.91, the mean of the eleven values with the reading among
  them.
\<close>

theorem history_excludes_reading_counterexample:
  "mean (recent_watts wobble_db ''a1'') = Inr 100 \<and>
   map_option (map al_baseline_watts)
     (alerts_after (spec_record wobble_db ''2024-01-01T00:00:01'' ''2024-01-01T00:00:01''
                      (EnergyReading_new ''a1'' ''PC'' 9999))) = Some [100] \<and>
   map_option (map al_baseline_watts)
     (alerts_after (add_reading wobble_db ''2024-01-01T00:00:01'' ''2024-01-01T00:00:01''
                      (EnergyReading_new ''a1'' ''PC'' 9999))) = Some [99991 / 100]"
  using wobble_spike_add_reading wobble_spike_spec_record
  by (simp add: recent_watts_wobble_db mean_def)

text \<open>The amended claim C1 at that database and reading.\<close>

theorem history_includes_new_reading_witness:
  "length (filter (\<lambda>x. row_device_id x = rd_device_id (EnergyReading_new ''a1'' ''PC'' 9999))
             (readings wobble_db)) < 100 \<and>
   mset (history_read wobble_db ''2024-01-01T00:00:01'' (EnergyReading_new ''a1'' ''PC'' 9999)) =
     mset [9999, 99, 101, 99, 101, 99, 101, 99, 101, 99, 101]"
proof -
  have c: "length (filter (\<lambda>x. row_device_id x = rd_device_id (EnergyReading_new ''a1'' ''PC'' 9999))
             (readings wobble_db)) < 100"
    by (simp add: EnergyReading_new_simps count_wobble_db)
  show ?thesis
    using c history_includes_new_reading [OF c, of "''2024-01-01T00:00:01''"]
    by (simp add: EnergyReading_new_simps recent_watts_wobble_db)
qed


subsection \<open>C2: the spike scenario\<close>

lemma spike_scenario_eq:
  "spike_scenario clock =
     Inr (insert_alert
            (inserted (steady_db clock 100 15) (fst (clock 15)) (EnergyReading_new ''a1'' ''PC'' 9999))
            \<lparr>al_device_id = ''a1'', al_device_name = ''PC'', al_alert_type = ''anomaly'',
              al_watts = 9999, al_baseline_watts = 71869 / 100,
              al_deviation_pct = 129129 / 100,
              al_message = Anomaly_message 9999 (11499 / 16) (4949500 / 3833),
              al_created_at = snd (clock 15)\<rparr>,
          (EnergyReading_new ''a1'' ''PC'' 9999)
             \<lparr>rd_timestamp := Some (fst (clock 15)), rd_id := Some 16\<rparr>,
          [Print_anomaly (Anomaly_message 9999 (11499 / 16) (4949500 / 3833))])"
proof -
  have a: "py_round (11499 / 16) 2 = 71869 / 100" by code_simp
  have b: "py_round (4949500 / 3833) 2 = 129129 / 100" by code_simp
  show ?thesis
    unfolding spike_scenario_def
    by (simp add: steady_then_spike Let_def power2_eq_square a b)
qed

text \<open>
  Claim C2, as amended. Fifteen readings of 100 W for device \<open>a1\<close> on a fresh
  database and then one reading of 9999 W generate exactly one alert, of type
  \<open>anomaly\<close>, whatever the clock reads. Its stored baseline is 718.69, the mean of all
  sixteen readings (the spike included), and its stored deviation is +1291.29 per cent.
\<close>

theorem spike_scenario_one_alert:
  "\<exists>d r out a. spike_scenario clock = Inr (d, r, out) \<and> alerts d = [a] \<and>
       al_alert_type a = ''anomaly'' \<and> al_watts a = 9999 \<and>
       al_baseline_watts a = 71869 / 100 \<and> al_deviation_pct a = 129129 / 100 \<and>
       length (readings d) = 16"
  by (simp add: spike_scenario_eq insert_alert_simps inserted_simps steady_db_simps
      EnergyAlert.defs)

text \<open>
  Claim C2 as stated fails: in that scenario the alert's baseline is 718.69, not about
  100, and its deviation 1291.29 per cent, not about 9799.
\<close>

theorem spike_scenario_counterexample:
  "map_option (map al_baseline_watts) (alerts_after (spike_scenario clock0)) = Some [71869 / 100] \<and>
   map_option (map al_deviation_pct) (alerts_after (spike_scenario clock0)) = Some [129129 / 100] \<and>
   \<not> \<bar>71869 / 100 - 100\<bar> < (600 :: real) \<and> \<not> \<bar>129129 / 100 - 9799\<bar> < (8000 :: real)"
  by (simp add: spike_scenario_eq alerts_after_def insert_alert_simps inserted_simps
      steady_db_simps EnergyAlert.defs)


subsection \<open>C3: short histories\<close>

text \<open>
  Claim C3, as amended. The history is read after the reading is stored, so the test
  \<^verbatim>\<open>len(history) >= 10\<close> counts the new reading: when the device has fewer than 9
  stored readings before the call, \<open>add_reading\<close> returns, leaves the alert log
  unchanged and prints no anomaly, whatever the watts of the reading.
\<close>

theorem no_anomaly_below_nine_prior:
  assumes "length (filter (\<lambda>x. row_device_id x = rd_device_id r) (readings d)) < 9"
  shows "\<exists>d' r' out. add_reading d now now' r = Inr (d', r', out) \<and> alerts d' = alerts d \<and>
           (\<forall>m. Print_anomaly m \<notin> set out)"
proof -
  have "length (history_read d now r) < 10"
    using assms by (simp add: length_history_read)
  then show ?thesis
    by (simp add: add_reading_eq anomaly_check_short inserted_simps threshold_check_eq
        split: option.split)
qed

theorem no_anomaly_below_nine_prior_witness:
  "length (filter (\<lambda>x. row_device_id x = rd_device_id (EnergyReading_new ''d1'' ''AC'' 1500))
             (readings init_db)) < 9 \<and>
   (\<exists>d' r' out. add_reading init_db ''2024-01-01T00:00:00'' ''2024-01-01T00:00:00''
                   (EnergyReading_new ''d1'' ''AC'' 1500) = Inr (d', r', out) \<and>
                 alerts d' = alerts init_db \<and> (\<forall>m. Print_anomaly m \<notin> set out))"
proof -
  have h: "length (filter (\<lambda>x. row_device_id x = rd_device_id (EnergyReading_new ''d1'' ''AC'' 1500))
             (readings init_db)) < 9"
    by (simp add: init_db_def)
  show ?thesis
    using h no_anomaly_below_nine_prior [OF h] by simp
qed

text \<open>
  Claim C3 as stated fails at 9 prior readings: nine readings of 100 W on a fresh
  database leave a history of 9 entries, and the tenth reading, of 9999 W, raises an
  anomaly alert.
\<close>

theorem nine_prior_readings_counterexample:
  "add_readings init_db (steady clock0 100 9) = Inr (steady_db clock0 100 9) \<and>
   length (recent_watts (steady_db clock0 100 9) ''a1'') = 9 \<and>
   map_option (map al_alert_type)
     (alerts_after (add_reading (steady_db clock0 100 9) (fst (clock0 9)) (snd (clock0 9))
                      (EnergyReading_new ''a1'' ''PC'' 9999))) = Some [''anomaly'']"
proof -
  have a: "length (recent_watts (steady_db clock0 100 9) ''a1'') = 9"
    by (simp add: length_recent_watts steady_db_simps)
  have b: "map_option (map al_alert_type)
     (alerts_after (steady_then clock0 100 9 9999)) = Some [''anomaly'']"
    by (simp add: steady_then_spike Let_def alerts_after_def insert_alert_simps inserted_simps
        steady_db_simps EnergyAlert.defs power2_eq_square)
  show ?thesis using a b by (simp add: add_readings_steady steady_then_eq)
qed


subsection \<open>C4: the two-sigma rule\<close>

text \<open>
  Claim C4, as amended. Take as history the values \<open>add_reading\<close> reads, that is the
  device's 100 newest stored readings once the new one is stored, and as mean \<open>m\<close> and
  standard deviation \<open>s\<close> what \<^verbatim>\<open>statistics.mean\<close> and \<^verbatim>\<open>statistics.stdev\<close>
  return on it. When the history has at least 10 entries and \<^verbatim>\<open>s > 0\<close>, the call
  returns, for watts that are not a NaN and a stored threshold that is not
  \<^verbatim>\<open>NULL\<close>; it appends exactly one alert, of type \<open>anomaly\<close>, when the code's own
  test \<^verbatim>\<open>abs(reading.watts - m) > 2 * s\<close> holds in its floating-point arithmetic,
  and none when it does not. This holds for every arithmetic \<open>ops\<close>.
\<close>

theorem anomaly_iff_beyond_two_sigma:
  assumes "\<not> is_nan ops (rd_watts r)"
      and "threshold_not_null ops d (rd_device_id r)"
      and "10 \<le> length (history_read d now r)"
      and "f_mean ops (history_read d now r) = Inr m"
      and "f_stdev ops (history_read d now r) = Inr s"
      and "f_gt ops s (f_lit ops 0)"
  shows "\<exists>d' r' out. add_reading_on ops d now now' r = Inr (d', r', out) \<and>
           (if beyond_two_std ops (rd_watts r) m s
            then \<exists>a. alerts d' = alerts d @ [a] \<and> al_alert_type a = ''anomaly'' \<and>
                     al_watts a = rd_watts r \<and> al_baseline_watts a = f_round ops m 2
            else alerts d' = alerts d)"
proof -
  let ?r' = "r\<lparr>rd_timestamp := Some (py_or (rd_timestamp r) now),
                rd_id := Some (Suc (readings_seq d))\<rparr>"
  obtain v where v: "deviation_pct_on ops (rd_watts r) m = Inr v"
    using deviation_pct_on_total [of ops "rd_watts r" m] by auto
  from assms(2) obtain out2 where th: "threshold_check_on ops d r = Inr out2"
    using threshold_check_on_returns [of ops d r] by auto
  have w: "rd_watts ?r' = rd_watts r" by simp
  show ?thesis
  proof (cases "beyond_two_std ops (rd_watts r) m s")
    case True
    let ?d' = "insert_alert (inserted d now r)
                      \<lparr>al_device_id = rd_device_id ?r', al_device_name = rd_device_name ?r',
                        al_alert_type = ''anomaly'', al_watts = rd_watts ?r',
                        al_baseline_watts = f_round ops m 2,
                        al_deviation_pct = f_round ops v 2,
                        al_message = Anomaly_message (rd_watts ?r') m v,
                        al_created_at = now'\<rparr>"
    from True have b: "f_gt ops (f_abs ops (f_sub ops (rd_watts ?r') m)) (f_mul ops (f_lit ops 2) s)"
      by (simp add: beyond_two_std_def)
    have ac: "anomaly_check_on ops (inserted d now r) now' ?r' (history_read d now r)
        = Inr (?d', [Print_anomaly (Anomaly_message (rd_watts ?r') m v)])"
      unfolding anomaly_check_on_eq [OF assms(3-5)] using assms(6) b v by simp
    have th': "threshold_check_on ops ?d' ?r' = Inr out2"
      unfolding th [symmetric]
      by (rule threshold_check_on_devices) (simp_all add: insert_alert_simps inserted_simps)
    have "add_reading_on ops d now now' r
        = Inr (?d', ?r', [Print_anomaly (Anomaly_message (rd_watts ?r') m v)] @ out2)"
      unfolding add_reading_on_eq [OF assms(1)] ac using th' by simp
    moreover have "\<exists>a. alerts ?d' = alerts d @ [a] \<and> al_alert_type a = ''anomaly'' \<and>
                     al_watts a = rd_watts r \<and> al_baseline_watts a = f_round ops m 2"
      by (simp add: insert_alert_simps inserted_simps EnergyAlert.defs)
    ultimately show ?thesis using True by (simp del: append.simps)
  next
    case False
    then have b: "\<not> f_gt ops (f_abs ops (f_sub ops (rd_watts ?r') m)) (f_mul ops (f_lit ops 2) s)"
      by (simp add: beyond_two_std_def)
    have ac: "anomaly_check_on ops (inserted d now r) now' ?r' (history_read d now r)
        = Inr (inserted d now r, [])"
      unfolding anomaly_check_on_eq [OF assms(3-5)] using b by simp
    have th': "threshold_check_on ops (inserted d now r) ?r' = Inr out2"
      unfolding th [symmetric]
      by (rule threshold_check_on_devices) (simp_all add: inserted_simps)
    have "add_reading_on ops d now now' r = Inr (inserted d now r, ?r', [] @ out2)"
      unfolding add_reading_on_eq [OF assms(1)] ac using th' by simp
    then show ?thesis using False by (simp add: inserted_simps)
  qed
qed

text \<open>
  Claim C4 as stated, with the history taken before the new reading, fails. The ten
  stored readings alternating between 99 W and 101 W have mean 100 and sample standard
  deviation \<open>sqrt (10 / 9)\<close>, about 1.054; a reading of 102.5 W is 2.5 away, more than
  two standard deviations, and \<open>add_reading\<close> raises no alert: of the eleven values
  it reads, 102.5 W is about 2.27 from the mean, and twice their standard deviation is
  2.5.
\<close>

theorem two_sigma_prior_history_counterexample:
  "length (recent_watts wobble_db ''a1'') = 10 \<and>
   mean (recent_watts wobble_db ''a1'') = Inr 100 \<and>
   stdev (recent_watts wobble_db ''a1'') = Inr (sqrt (10 / 9)) \<and>
   0 < sqrt (10 / 9 :: real) \<and>
   2 * sqrt (10 / 9) < \<bar>205 / 2 - (100::real)\<bar> \<and>
   alerts_after (add_reading wobble_db ''2024-01-01T00:00:01'' ''2024-01-01T00:00:01''
                   (EnergyReading_new ''a1'' ''PC'' (205 / 2))) = Some []"
  using wobble_prior_stats wobble_two_sigma wobble_nudge_add_reading by simp

text \<open>
  The amended claim C4 on both sides, in exact arithmetic. After nine readings of
  100 W the tenth, of 9999 W, is beyond two standard deviations of the ten values and
  is alerted. On the database alternating between 99 W and 101 W a reading of 100 W
  gives the eleven values mean 100 and standard deviation 1, lies within two standard
  deviations and is not alerted.
\<close>

theorem anomaly_iff_beyond_two_sigma_witness:
  "(10 \<le> length (history_read (steady_db clock0 100 9) (fst (clock0 9))
                  (EnergyReading_new ''a1'' ''PC'' 9999)) \<and>
    f_mean exact (history_read (steady_db clock0 100 9) (fst (clock0 9))
           (EnergyReading_new ''a1'' ''PC'' 9999)) = Inr (10899 / 10) \<and>
    f_stdev exact (history_read (steady_db clock0 100 9) (fst (clock0 9))
           (EnergyReading_new ''a1'' ''PC'' 9999)) = Inr (sqrt (97990201 / 10)) \<and>
    f_gt exact (sqrt (97990201 / 10)) (f_lit exact 0) \<and>
    beyond_two_std exact 9999 (10899 / 10) (sqrt (97990201 / 10)) \<and>
    (\<exists>d' r' out a. add_reading_on exact (steady_db clock0 100 9) (fst (clock0 9)) (snd (clock0 9))
                   (EnergyReading_new ''a1'' ''PC'' 9999) = Inr (d', r', out) \<and>
        alerts d' = [a] \<and> al_alert_type a = ''anomaly'' \<and> al_baseline_watts a = 108990 / 100)) \<and>
   (10 \<le> length (history_read wobble_db ''2024-01-01T00:00:01''
                  (EnergyReading_new ''a1'' ''PC'' 100)) \<and>
    f_mean exact (history_read wobble_db ''2024-01-01T00:00:01'' (EnergyReading_new ''a1'' ''PC'' 100))
      = Inr 100 \<and>
    f_stdev exact (history_read wobble_db ''2024-01-01T00:00:01'' (EnergyReading_new ''a1'' ''PC'' 100))
      = Inr 1 \<and>
    f_gt exact 1 (f_lit exact 0) \<and>
    \<not> beyond_two_std exact 100 100 1 \<and>
    (\<exists>d' r' out. add_reading_on exact wobble_db ''2024-01-01T00:00:01'' ''2024-01-01T00:00:02''
                    (EnergyReading_new ''a1'' ''PC'' 100) = Inr (d', r', out) \<and> alerts d' = []))"
proof (rule conjI)
  let ?r = "EnergyReading_new ''a1'' ''PC'' 9999"
  let ?h = "history_read (steady_db clock0 100 9) (fst (clock0 9)) ?r"
  have n: "\<not> is_nan exact (rd_watts ?r)" by (simp add: exact_simps)
  have tn: "threshold_not_null exact (steady_db clock0 100 9) (rd_device_id ?r)"
    by (simp add: threshold_not_null_def steady_db_simps)
  have h1: "10 \<le> length ?h" by (simp add: steady_nine_history_stats)
  have h2: "f_mean exact ?h = Inr (10899 / 10)"
    by (simp add: exact_simps steady_nine_history_stats)
  have h3: "f_stdev exact ?h = Inr (sqrt (97990201 / 10))"
    by (simp add: exact_simps steady_nine_history_stats)
  have h4: "f_gt exact (sqrt (97990201 / 10)) (f_lit exact 0)" by (simp add: exact_simps)
  have far: "2 * sqrt (97990201 / 10) < \<bar>9999 - 10899 / 10 :: real\<bar>"
    unfolding two_sqrt_less_abs by (simp add: power2_eq_square)
  then have h5: "beyond_two_std exact 9999 (10899 / 10) (sqrt (97990201 / 10))"
    by (simp add: beyond_two_std_def exact_simps)
  have p: "py_round (10899 / 10) 2 = 108990 / 100" by code_simp
  from anomaly_iff_beyond_two_sigma [OF n tn h1 h2 h3 h4, of "snd (clock0 9)"] h5
  have "\<exists>d' r' out a. add_reading_on exact (steady_db clock0 100 9) (fst (clock0 9)) (snd (clock0 9))
                   (EnergyReading_new ''a1'' ''PC'' 9999) = Inr (d', r', out) \<and>
        alerts d' = [a] \<and> al_alert_type a = ''anomaly'' \<and> al_baseline_watts a = 108990 / 100"
    by (auto simp add: steady_db_simps EnergyReading_new_simps exact_simps p)
  with h1 h2 h3 h4 h5 show "10 \<le> length ?h \<and> f_mean exact ?h = Inr (10899 / 10) \<and>
    f_stdev exact ?h = Inr (sqrt (97990201 / 10)) \<and>
    f_gt exact (sqrt (97990201 / 10)) (f_lit exact 0) \<and>
    beyond_two_std exact 9999 (10899 / 10) (sqrt (97990201 / 10)) \<and>
    (\<exists>d' r' out a. add_reading_on exact (steady_db clock0 100 9) (fst (clock0 9)) (snd (clock0 9))
                   (EnergyReading_new ''a1'' ''PC'' 9999) = Inr (d', r', out) \<and>
        alerts d' = [a] \<and> al_alert_type a = ''anomaly'' \<and> al_baseline_watts a = 108990 / 100)"
    by (intro conjI)
next
  let ?r = "EnergyReading_new ''a1'' ''PC'' 100"
  let ?h = "history_read wobble_db ''2024-01-01T00:00:01'' ?r"
  have n: "\<not> is_nan exact (rd_watts ?r)" by (simp add: exact_simps)
  have tn: "threshold_not_null exact wobble_db (rd_device_id ?r)"
    by (simp add: threshold_not_null_def wobble_db_simps)
  have g1: "10 \<le> length ?h" by (simp add: wobble_level_history_stats)
  have g2: "f_mean exact ?h = Inr 100" by (simp add: exact_simps wobble_level_history_stats)
  have g3: "f_stdev exact ?h = Inr 1" by (simp add: exact_simps wobble_level_history_stats)
  have g4: "f_gt exact 1 (f_lit exact 0)" by (simp add: exact_simps)
  have g5: "\<not> beyond_two_std exact 100 100 1" by (simp add: beyond_two_std_def exact_simps)
  from anomaly_iff_beyond_two_sigma [OF n tn g1 g2 g3 g4, of "''2024-01-01T00:00:02''"] g5
  have "\<exists>d' r' out. add_reading_on exact wobble_db ''2024-01-01T00:00:01'' ''2024-01-01T00:00:02''
                    (EnergyReading_new ''a1'' ''PC'' 100) = Inr (d', r', out) \<and> alerts d' = []"
    by (auto simp add: EnergyReading_new_simps wobble_db_simps)
  with g1 g2 g3 g4 g5 show "10 \<le> length ?h \<and> f_mean exact ?h = Inr 100 \<and> f_stdev exact ?h = Inr 1 \<and>
    f_gt exact 1 (f_lit exact 0) \<and> \<not> beyond_two_std exact 100 100 1 \<and>
    (\<exists>d' r' out. add_reading_on exact wobble_db ''2024-01-01T00:00:01'' ''2024-01-01T00:00:02''
                    (EnergyReading_new ''a1'' ''PC'' 100) = Inr (d', r', out) \<and> alerts d' = [])"
    by (intro conjI)
qed


subsection \<open>C5: where values are rounded\<close>





subsection \<open>C6: the derived energy and cost\<close>

text \<open>
  Claim C6, as amended. Every row \<open>get_daily_usage\<close> returns stands for a non-empty
  group: the selected readings that have the row's device id, device name and
  location. Its \<open>reading_count\<close> is the size of that group; with \<open>a\<close> the group's
  \<^verbatim>\<open>AVG(watts)\<close>, its \<open>avg_watts\<close> is \<^verbatim>\<open>round(a, 2)\<close>, its \<open>daily_kwh\<close> is
  \<^verbatim>\<open>round((a * 24.0) / 1000.0, 4)\<close> and its \<open>daily_cost_usd\<close> is
  \<^verbatim>\<open>round((a * 24.0) / 1000.0 * 0.12, 4)\<close>, each as the code's floating-point
  operations compute it. So \<open>daily_kwh\<close> is a rounding of the product, not the
  product, and it is not computed from the rounded \<open>avg_watts\<close>. This holds for every
  arithmetic \<open>ops\<close>.
\<close>

theorem daily_kwh_rounded_from_average:
  assumes "get_daily_usage_on ops d today device_id date_str = Inr stats" and "s \<in> set stats"
  shows "stats_group d (py_or date_str today) device_id s \<noteq> [] \<and>
         st_reading_count s = length (stats_group d (py_or date_str today) device_id s) \<and>
         (\<exists>a. f_avg ops (map row_watts (stats_group d (py_or date_str today) device_id s)) = Some a \<and>
              st_avg_watts s = f_round ops a 2 \<and>
              st_daily_kwh s =
                f_round ops (f_div ops (f_mul ops a (f_lit ops 24)) (f_lit ops 1000)) 4 \<and>
              st_daily_cost_usd s =
                f_round ops (f_mul ops (f_div ops (f_mul ops a (f_lit ops 24)) (f_lit ops 1000))
                               (f_lit ops (12 / 100))) 4)"
  using get_daily_usage_on_group [OF assms]
  by (simp add: kwh_of_def cost_of_def cost_per_kwh_def)

text \<open>
  The amended claim C6 for one reading of 3000 W, in exact arithmetic: the group is
  that reading, and \<open>daily_kwh\<close> is 72.
\<close>

theorem daily_kwh_rounded_from_average_witness:
  "get_daily_usage_on exact two_day_db ''2024-01-01'' None None =
     Inr [\<lparr>st_device_id = ''p1'', st_device_name = ''Oven'', st_location = ''default'',
           st_avg_watts = 3000, st_max_watts = 3000, st_min_watts = 3000,
           st_daily_kwh = 72, st_daily_cost_usd = 72 * COST_PER_KWH, st_reading_count = 1,
           st_last_reading_at = Some ''2024-01-01T08:00:00''\<rparr>] \<and>
   stats_group two_day_db ''2024-01-01'' None
     \<lparr>st_device_id = ''p1'', st_device_name = ''Oven'', st_location = ''default'',
       st_avg_watts = 3000, st_max_watts = 3000, st_min_watts = 3000,
       st_daily_kwh = 72, st_daily_cost_usd = 72 * COST_PER_KWH, st_reading_count = 1,
       st_last_reading_at = Some ''2024-01-01T08:00:00''\<rparr> \<noteq> [] \<and>
   f_avg exact (map row_watts (stats_group two_day_db ''2024-01-01'' None
     \<lparr>st_device_id = ''p1'', st_device_name = ''Oven'', st_location = ''default'',
       st_avg_watts = 3000, st_max_watts = 3000, st_min_watts = 3000,
       st_daily_kwh = 72, st_daily_cost_usd = 72 * COST_PER_KWH, st_reading_count = 1,
       st_last_reading_at = Some ''2024-01-01T08:00:00''\<rparr>)) = Some 3000 \<and>
   (72 :: real) = f_round exact (f_div exact (f_mul exact 3000 (f_lit exact 24)) (f_lit exact 1000)) 4"
proof -
  let ?s = "\<lparr>st_device_id = ''p1'', st_device_name = ''Oven'', st_location = ''default'',
           st_avg_watts = 3000, st_max_watts = 3000, st_min_watts = 3000,
           st_daily_kwh = (72 :: real), st_daily_cost_usd = 72 * COST_PER_KWH, st_reading_count = 1,
           st_last_reading_at = Some ''2024-01-01T08:00:00''\<rparr>"
  have u: "get_daily_usage_on exact two_day_db ''2024-01-01'' None None = Inr [?s]"
    using two_day_usage_first by (simp add: get_daily_usage_def)
  have m: "?s \<in> set [?s]" by simp
  have g: "stats_group two_day_db ''2024-01-01'' None ?s = [readings two_day_db ! 0]"
    by (simp add: stats_group_def two_day_selected) (simp add: two_day_db_def group_key_def)
  have av: "f_avg exact (map row_watts [readings two_day_db ! 0]) = Some 3000"
    by (simp add: exact_simps sql_avg_def two_day_db_def)
  from daily_kwh_rounded_from_average [OF u m]
  have ne: "stats_group two_day_db (py_or None ''2024-01-01'') None ?s \<noteq> []"
    and ex: "\<exists>a. f_avg exact (map row_watts (stats_group two_day_db (py_or None ''2024-01-01'') None ?s)) = Some a \<and>
              st_daily_kwh ?s =
                f_round exact (f_div exact (f_mul exact a (f_lit exact 24)) (f_lit exact 1000)) 4"
    by blast+
  have p: "py_or None ''2024-01-01'' = ''2024-01-01''" by (simp add: py_or_def)
  from ex obtain a
    where a1: "f_avg exact (map row_watts (stats_group two_day_db (py_or None ''2024-01-01'') None ?s)) = Some a"
      and a2: "st_daily_kwh ?s =
                f_round exact (f_div exact (f_mul exact a (f_lit exact 24)) (f_lit exact 1000)) 4"
    by blast
  from a1 have "a = 3000" unfolding p g av by simp
  with a2 have k: "(72 :: real) = f_round exact (f_div exact (f_mul exact 3000 (f_lit exact 24)) (f_lit exact 1000)) 4"
    by simp
  from ne have ne': "stats_group two_day_db ''2024-01-01'' None ?s \<noteq> []" unfolding p .
  have av': "f_avg exact (map row_watts (stats_group two_day_db ''2024-01-01'' None ?s)) = Some 3000"
    by (simp only: g av)
  from u ne' av' k show ?thesis by (intro conjI)
qed

text \<open>
  Claim C6 as stated fails for a reading of 0.01 W: the row has \<open>avg_watts = 0.01\<close>,
  \<open>daily_kwh = 0.0002\<close> and \<open>daily_cost_usd = 0\<close>, while \<open>0.01 * 24 / 1000\<close> is 0.00024
  and \<open>0.0002 * COST_PER_KWH\<close> is not 0.
\<close>

theorem daily_kwh_exact_counterexample:
  "map_sum id (map (\<lambda>s. (st_avg_watts s, st_daily_kwh s, st_daily_cost_usd s)))
     (get_daily_usage penny_db ''2024-01-01'' None None)
     = Inr [(1 / 100, 1 / 5000, 0), (1 / 100, 1 / 5000, 0)] \<and>
   (1 / 100 :: real) * 24 / 1000 \<noteq> 1 / 5000 \<and>
   (1 / 5000 :: real) * COST_PER_KWH \<noteq> 0"
  by (simp add: penny_usage COST_PER_KWH_def)


subsection \<open>C7: the threshold check only warns\<close>

text \<open>
  Claim C7. Whenever \<open>add_reading\<close> returns, the database it returns is the one the
  anomaly block produced: the threshold block adds its warning to the output and
  nothing to the alert log, and the alert log after the call is the same whatever
  devices and thresholds are registered. A reading above its device's positive
  threshold gets the threshold warning printed. The anomaly block does persist: when
  the history has at least 10 entries, \<^verbatim>\<open>statistics.mean\<close> and
  \<^verbatim>\<open>statistics.stdev\<close> return \<open>m\<close> and \<open>s\<close>, \<^verbatim>\<open>s > 0\<close> and the test
  \<^verbatim>\<open>abs(reading.watts - m) > 2 * s\<close> holds, the alert log has grown by exactly one
  row, of type \<open>anomaly\<close>, for this reading, and its message is printed; any other row
  the call appends is of type \<open>anomaly\<close> too. This holds for every arithmetic \<open>ops\<close>.
\<close>

theorem threshold_check_never_persists:
  assumes "add_reading_on ops d now now' r = Inr (d', r', out)"
  shows "(\<exists>out1 out2.
            anomaly_check_on ops (inserted d now r) now' r' (history_read d now r) = Inr (d', out1) \<and>
            threshold_check_on ops d r = Inr out2 \<and> out = out1 @ out2 \<and>
            (out1 = [] \<and> alerts d' = alerts d \<or>
             (\<exists>a. out1 = [Print_anomaly (al_message a)] \<and> alerts d' = alerts d @ [a] \<and>
                  al_alert_type a = ''anomaly''))) \<and>
         (\<forall>v. find (\<lambda>v. dv_device_id v = rd_device_id r) (devices d) = Some v \<and>
               f_gt ops (dv_threshold_watts v) (f_lit ops 0) \<and>
               f_gt ops (rd_watts r) (dv_threshold_watts v) \<longrightarrow>
               Print_threshold (rd_watts r) (dv_threshold_watts v) \<in> set out) \<and>
         (\<forall>m s. 10 \<le> length (history_read d now r) \<and>
                f_mean ops (history_read d now r) = Inr m \<and>
                f_stdev ops (history_read d now r) = Inr s \<and>
                f_gt ops s (f_lit ops 0) \<and> beyond_two_std ops (rd_watts r) m s \<longrightarrow>
                (\<exists>a. alerts d' = alerts d @ [a] \<and> al_alert_type a = ''anomaly'' \<and>
                     al_device_id a = rd_device_id r \<and> al_watts a = rd_watts r \<and>
                     al_baseline_watts a = f_round ops m 2 \<and>
                     Print_anomaly (al_message a) \<in> set out)) \<and>
         (\<forall>devs d2 r2 out2.
            add_reading_on ops (d\<lparr>devices := devs\<rparr>) now now' r = Inr (d2, r2, out2) \<longrightarrow>
            alerts d2 = alerts d')"
proof (intro conjI allI impI)
  from add_reading_on_result [OF assms] obtain out1 out2 where
    nn: "\<not> is_nan ops (rd_watts r)"
    and r': "r' = r\<lparr>rd_timestamp := Some (py_or (rd_timestamp r) now),
                 rd_id := Some (Suc (readings_seq d))\<rparr>"
    and ac: "anomaly_check_on ops (inserted d now r) now' r' (history_read d now r) = Inr (d', out1)"
    and th: "threshold_check_on ops d r = Inr out2" and out: "out = out1 @ out2"
    by blast
  from anomaly_check_on_alerts [OF ac]
  have al: "out1 = [] \<and> alerts d' = alerts d \<or>
             (\<exists>a. out1 = [Print_anomaly (al_message a)] \<and> alerts d' = alerts d @ [a] \<and>
                  al_alert_type a = ''anomaly'')"
    by (auto simp add: inserted_simps)
  from ac th out al
  show "\<exists>out1 out2.
            anomaly_check_on ops (inserted d now r) now' r' (history_read d now r) = Inr (d', out1) \<and>
            threshold_check_on ops d r = Inr out2 \<and> out = out1 @ out2 \<and>
            (out1 = [] \<and> alerts d' = alerts d \<or>
             (\<exists>a. out1 = [Print_anomaly (al_message a)] \<and> alerts d' = alerts d @ [a] \<and>
                  al_alert_type a = ''anomaly''))"
    by (intro exI [of _ out1] exI [of _ out2] conjI)
  {
    fix v
    assume v: "find (\<lambda>v. dv_device_id v = rd_device_id r) (devices d) = Some v \<and>
               f_gt ops (dv_threshold_watts v) (f_lit ops 0) \<and>
               f_gt ops (rd_watts r) (dv_threshold_watts v)"
    with th have "out2 = [Print_threshold (rd_watts r) (dv_threshold_watts v)]"
      by (auto simp add: threshold_check_on_def split: if_splits)
    then show "Print_threshold (rd_watts r) (dv_threshold_watts v) \<in> set out"
      by (simp add: out)
  }
  {
    fix m s
    assume h: "10 \<le> length (history_read d now r) \<and>
                f_mean ops (history_read d now r) = Inr m \<and>
                f_stdev ops (history_read d now r) = Inr s \<and>
                f_gt ops s (f_lit ops 0) \<and> beyond_two_std ops (rd_watts r) m s"
    then have h1: "10 \<le> length (history_read d now r)"
      and h2: "f_mean ops (history_read d now r) = Inr m"
      and h3: "f_stdev ops (history_read d now r) = Inr s"
      and h4: "f_gt ops s (f_lit ops 0)"
      and h5: "f_gt ops (f_abs ops (f_sub ops (rd_watts r) m)) (f_mul ops (f_lit ops 2) s)"
      by (simp_all add: beyond_two_std_def)
    obtain v where v: "deviation_pct_on ops (rd_watts r) m = Inr v"
      using deviation_pct_on_total [of ops "rd_watts r" m] by auto
    have w: "rd_watts r' = rd_watts r" "rd_device_id r' = rd_device_id r"
      by (simp_all add: r')
    from ac have "d' = insert_alert (inserted d now r)
                      \<lparr>al_device_id = rd_device_id r', al_device_name = rd_device_name r',
                        al_alert_type = ''anomaly'', al_watts = rd_watts r',
                        al_baseline_watts = f_round ops m 2,
                        al_deviation_pct = f_round ops v 2,
                        al_message = Anomaly_message (rd_watts r') m v,
                        al_created_at = now'\<rparr>"
      and "out1 = [Print_anomaly (Anomaly_message (rd_watts r') m v)]"
      by (simp_all add: anomaly_check_on_eq [OF h1 h2 h3] h4 h5 w v)
    then show "\<exists>a. alerts d' = alerts d @ [a] \<and> al_alert_type a = ''anomaly'' \<and>
                     al_device_id a = rd_device_id r \<and> al_watts a = rd_watts r \<and>
                     al_baseline_watts a = f_round ops m 2 \<and>
                     Print_anomaly (al_message a) \<in> set out"
      by (simp add: insert_alert_simps inserted_simps EnergyAlert.defs w out)
  }
  {
    fix devs d2 r2 out2'
    assume a2: "add_reading_on ops (d\<lparr>devices := devs\<rparr>) now now' r = Inr (d2, r2, out2')"
    from add_reading_on_result [OF a2] obtain o1 where
      r2: "r2 = r\<lparr>rd_timestamp := Some (py_or (rd_timestamp r) now),
                 rd_id := Some (Suc (readings_seq d))\<rparr>"
      and ac2: "anomaly_check_on ops (inserted (d\<lparr>devices := devs\<rparr>) now r) now' r2
                  (history_read (d\<lparr>devices := devs\<rparr>) now r) = Inr (d2, o1)"
      by auto
    from ac2 have "d2 = d'\<lparr>devices := devs\<rparr>"
      by (simp add: inserted_devices history_read_devices anomaly_check_on_devices r2
          ac [unfolded r'])
    then show "alerts d2 = alerts d'" by simp
  }
qed

text \<open>
  Claim C7 for a reading of 9999 W after nine readings of 100 W of a device registered
  with a threshold of 1000 W, in exact arithmetic: both blocks fire. The alert log
  gets the one anomaly row, with baseline 1089.9, and both the anomaly message and the
  threshold warning are printed.
\<close>

theorem threshold_check_never_persists_witness:
  "find (\<lambda>v. dv_device_id v = ''a1'') (devices alarm_db)
     = Some \<lparr>dv_device_id = ''a1'', dv_device_name = ''PC'', dv_location = ''default'',
             dv_threshold_watts = 1000, dv_created_at = ''2024-01-01T00:00:00''\<rparr> \<and>
   10 \<le> length (history_read alarm_db (fst (clock0 9)) (EnergyReading_new ''a1'' ''PC'' 9999)) \<and>
   f_mean exact (history_read alarm_db (fst (clock0 9)) (EnergyReading_new ''a1'' ''PC'' 9999))
     = Inr (10899 / 10) \<and>
   f_stdev exact (history_read alarm_db (fst (clock0 9)) (EnergyReading_new ''a1'' ''PC'' 9999))
     = Inr (sqrt (97990201 / 10)) \<and>
   beyond_two_std exact 9999 (10899 / 10) (sqrt (97990201 / 10)) \<and>
   (\<exists>d' r' out a.
      add_reading_on exact alarm_db (fst (clock0 9)) (snd (clock0 9))
        (EnergyReading_new ''a1'' ''PC'' 9999) = Inr (d', r', out) \<and>
      alerts d' = [a] \<and> al_alert_type a = ''anomaly'' \<and> al_watts a = 9999 \<and>
      al_baseline_watts a = 108990 / 100 \<and>
      Print_anomaly (al_message a) \<in> set out \<and> Print_threshold 9999 1000 \<in> set out)"
proof -
  let ?r = "EnergyReading_new ''a1'' ''PC'' 9999"
  let ?h = "history_read alarm_db (fst (clock0 9)) ?r"
  have hh: "?h = history_read (steady_db clock0 100 9) (fst (clock0 9)) ?r"
    by (simp add: alarm_db_eq history_read_devices)
  have f: "find (\<lambda>v. dv_device_id v = ''a1'') (devices alarm_db)
     = Some \<lparr>dv_device_id = ''a1'', dv_device_name = ''PC'', dv_location = ''default'',
             dv_threshold_watts = 1000, dv_created_at = ''2024-01-01T00:00:00''\<rparr>"
    by (simp add: alarm_db_simps)
  have h1: "10 \<le> length ?h" unfolding hh by (simp add: steady_nine_history_stats)
  have h2: "f_mean exact ?h = Inr (10899 / 10)"
    unfolding hh by (simp add: exact_simps steady_nine_history_stats)
  have h3: "f_stdev exact ?h = Inr (sqrt (97990201 / 10))"
    unfolding hh by (simp add: exact_simps steady_nine_history_stats)
  have h4: "f_gt exact (sqrt (97990201 / 10)) (f_lit exact 0)" by (simp add: exact_simps)
  have far: "2 * sqrt (97990201 / 10) < \<bar>9999 - 10899 / 10 :: real\<bar>"
    unfolding two_sqrt_less_abs by (simp add: power2_eq_square)
  then have h5: "beyond_two_std exact 9999 (10899 / 10) (sqrt (97990201 / 10))"
    by (simp add: beyond_two_std_def exact_simps)
  have p: "py_round (10899 / 10) 2 = 108990 / 100" by code_simp
  obtain d' r' out where a: "add_reading_on exact alarm_db (fst (clock0 9)) (snd (clock0 9)) ?r
      = Inr (d', r', out)"
    using add_reading_total [of alarm_db "fst (clock0 9)" "snd (clock0 9)" ?r]
    by (auto simp add: add_reading_def)
  note t = threshold_check_never_persists [OF a]
  have thr: "Print_threshold 9999 1000 \<in> set out"
    using t [THEN conjunct2, THEN conjunct1, THEN spec,
        of "\<lparr>dv_device_id = ''a1'', dv_device_name = ''PC'', dv_location = ''default'',
             dv_threshold_watts = 1000, dv_created_at = ''2024-01-01T00:00:00''\<rparr>"]
    by (simp add: EnergyReading_new_simps f exact_simps)
  have "\<exists>a. alerts d' = alerts alarm_db @ [a] \<and> al_alert_type a = ''anomaly'' \<and>
             al_device_id a = rd_device_id ?r \<and> al_watts a = rd_watts ?r \<and>
             al_baseline_watts a = f_round exact (10899 / 10) 2 \<and>
             Print_anomaly (al_message a) \<in> set out"
    using t [THEN conjunct2, THEN conjunct2, THEN conjunct1, THEN spec, THEN spec,
        of "10899 / 10" "sqrt (97990201 / 10)"] h1 h2 h3 h4 h5
    by (simp add: EnergyReading_new_simps)
  then obtain al where al: "alerts d' = [al]" "al_alert_type al = ''anomaly''" "al_watts al = 9999"
      "al_baseline_watts al = 108990 / 100" "Print_anomaly (al_message al) \<in> set out"
    by (auto simp add: alarm_db_simps EnergyReading_new_simps exact_simps p)
  from a al thr have "\<exists>d' r' out a.
      add_reading_on exact alarm_db (fst (clock0 9)) (snd (clock0 9))
        (EnergyReading_new ''a1'' ''PC'' 9999) = Inr (d', r', out) \<and>
      alerts d' = [a] \<and> al_alert_type a = ''anomaly'' \<and> al_watts a = 9999 \<and>
      al_baseline_watts a = 108990 / 100 \<and>
      Print_anomaly (al_message a) \<in> set out \<and> Print_threshold 9999 1000 \<in> set out"
    by (intro exI [of _ d'] exI [of _ r'] exI [of _ out] exI [of _ al] conjI)
  with f h1 h2 h3 h5 show ?thesis by (intro conjI)
qed


subsection \<open>C8: the deviation percentage\<close>

lemma alert_deviation_zero:
  assumes "add_reading d now now' r = Inr (d', r', out)"
      and "alerts d' = alerts d @ [a]"
      and "mean (history_read d now r) = Inr m"
      and "m \<le> 0"
  shows "al_deviation_pct a = 0"
proof (cases "10 \<le> length (history_read d now r)")
  case False
  with assms(1,2) show ?thesis
    by (auto simp add: add_reading_eq anomaly_check_short inserted_simps)
next
  case True
  then have two: "2 \<le> length (history_read d now r)" by simp
  from assms(1,2,4) show ?thesis
    by (auto simp add: add_reading_eq anomaly_check_eq [OF True assms(3) stdev_sqrt [OF two]]
        insert_alert_simps inserted_simps EnergyAlert.defs py_round_zero split: if_splits)
qed

text \<open>
  Claim C8. The deviation percentage is 0 whenever the baseline is at most 0, its
  computation never raises, \<open>add_reading\<close> as a whole never raises a division error,
  and every alert row that \<open>add_reading\<close> stores for a history with mean at most 0
  carries the deviation 0.
\<close>

theorem deviation_pct_guarded:
  "(b \<le> 0 \<longrightarrow> deviation_pct w b = Inr 0) \<and>
   (\<exists>v. deviation_pct w b = Inr v) \<and>
   add_reading d now now' r \<noteq> Inl ZeroDivisionError \<and>
   (\<forall>d' r' out a m. add_reading d now now' r = Inr (d', r', out) \<and> alerts d' = alerts d @ [a] \<and>
        mean (history_read d now r) = Inr m \<and> m \<le> 0 \<longrightarrow> al_deviation_pct a = 0)"
proof -
  have "add_reading d now now' r \<noteq> Inl ZeroDivisionError"
    using add_reading_total [of d now now' r] by auto
  then show ?thesis
    using alert_deviation_zero [of d now now' r]
    by (auto simp add: deviation_pct_total)
qed

lemma steady_nine_zero_dip:
  "add_reading (steady_db clock0 0 9) (fst (clock0 9)) (snd (clock0 9))
       (EnergyReading_new ''a1'' ''PC'' (- 10))
     = Inr (insert_alert
              (inserted (steady_db clock0 0 9) (fst (clock0 9)) (EnergyReading_new ''a1'' ''PC'' (- 10)))
              \<lparr>al_device_id = ''a1'', al_device_name = ''PC'', al_alert_type = ''anomaly'',
                al_watts = - 10, al_baseline_watts = - 1, al_deviation_pct = 0,
                al_message = Anomaly_message (- 10) (- 1) 0,
                al_created_at = snd (clock0 9)\<rparr>,
            (EnergyReading_new ''a1'' ''PC'' (- 10))
               \<lparr>rd_timestamp := Some (fst (clock0 9)), rd_id := Some 10\<rparr>,
            [Print_anomaly (Anomaly_message (- 10) (- 1) 0)])"
proof -
  have a: "py_round (- 1) 2 = - 1" by code_simp
  show ?thesis
    unfolding steady_then_eq [symmetric]
    by (simp add: steady_then_spike Let_def power2_eq_square a py_round_zero)
qed

text \<open>
  Claim C8 after nine readings of 0 W: a reading of -10 W makes the baseline -1, and
  the alert it raises stores the deviation 0.
\<close>

theorem deviation_pct_guarded_witness:
  "(- 1 :: real) \<le> 0 \<and> deviation_pct (- 10) (- 1) = Inr 0 \<and>
   mean (history_read (steady_db clock0 0 9) (fst (clock0 9))
           (EnergyReading_new ''a1'' ''PC'' (- 10))) = Inr (- 1) \<and>
   map_option (map al_deviation_pct)
     (alerts_after (add_reading (steady_db clock0 0 9) (fst (clock0 9)) (snd (clock0 9))
                      (EnergyReading_new ''a1'' ''PC'' (- 10)))) = Some [0]"
proof -
  let ?r = "EnergyReading_new ''a1'' ''PC'' (- 10)"
  let ?d = "steady_db clock0 0 9"
  let ?a = "EnergyAlert.extend
              \<lparr>al_device_id = ''a1'', al_device_name = ''PC'', al_alert_type = ''anomaly'',
                al_watts = (- 10 :: real), al_baseline_watts = - 1, al_deviation_pct = 0,
                al_message = Anomaly_message (- 10) (- 1) 0,
                al_created_at = snd (clock0 9)\<rparr> \<lparr>al_id = 1\<rparr>"
  have m: "mset (history_read ?d (fst (clock0 9)) ?r) = mset (- 10 # replicate 9 0)"
    by (rule history_read_steady_db) simp
  have h3: "mean (history_read ?d (fst (clock0 9)) ?r) = Inr (- 1)"
    unfolding mean_mset [OF m] mean_spike by simp
  have h2: "alerts (insert_alert (inserted ?d (fst (clock0 9)) ?r)
              \<lparr>al_device_id = ''a1'', al_device_name = ''PC'', al_alert_type = ''anomaly'',
                al_watts = (- 10 :: real), al_baseline_watts = - 1, al_deviation_pct = 0,
                al_message = Anomaly_message (- 10) (- 1) 0,
                al_created_at = snd (clock0 9)\<rparr>) = alerts ?d @ [?a]"
    by (simp add: insert_alert_simps inserted_simps steady_db_simps)
  have h4: "(- 1 :: real) \<le> 0" by simp
  from deviation_pct_guarded [of "- 1" "- 10" ?d "fst (clock0 9)" "snd (clock0 9)" ?r]
  have dv: "deviation_pct (- 10) (- 1) = Inr 0" and "al_deviation_pct ?a = 0"
    using steady_nine_zero_dip h2 h3 h4 by blast+
  then show ?thesis
    using h3 by (simp add: steady_nine_zero_dip alerts_after_def h2 steady_db_simps)
qed


subsection \<open>C9: empty inputs\<close>




subsection \<open>C10: what a call stores and returns\<close>





end
